theory Spec2Isabelle
  imports Complex_Main
begin

section \<open>Sdc: subdivision rules, the creasing interface and masks\<close>

text \<open>
  The embedding follows \<^verbatim>\<open>opensubdiv/sdc/scheme.h\<close> and
  \<^verbatim>\<open>opensubdiv/far/refineTables.cpp\<close>. Weights and sharpness values are C++
  \<^verbatim>\<open>float\<close>s; they are modelled by \<^typ>\<open>real\<close>, so every statement below is about the
  exact arithmetic of the formulas and not about rounding. All concrete inputs used below
  are small dyadic fractions, for which the \<^verbatim>\<open>float\<close> operations are exact as well.
\<close>

text \<open>\<^verbatim>\<open>SdcCrease::Rule\<close>.\<close>

datatype Rule = RULE_UNKNOWN | RULE_SMOOTH | RULE_DART | RULE_CREASE | RULE_CORNER

text \<open>
  Class \<^verbatim>\<open>SdcCrease\<close> lives in \<^verbatim>\<open>sdc/crease.h\<close>, which is not part of the sources
  at hand. The object \<^verbatim>\<open>SdcCrease crease(_options)\<close> is therefore a parameter: a record of
  the three methods that \<^verbatim>\<open>scheme.h\<close> calls on it.
\<close>

record SdcCrease =
  IsUniform :: bool
  DetermineVertexVertexRule :: "real \<Rightarrow> nat \<Rightarrow> real list \<Rightarrow> Rule"
  ComputeFractionalWeightAtVertex :: "real \<Rightarrow> real \<Rightarrow> nat \<Rightarrow> real list \<Rightarrow> real list \<Rightarrow> real"

text \<open>
  A mask (the \<^verbatim>\<open>MASK\<close> template parameter and \<^verbatim>\<open>LocalMask\<close>): three weight counts and
  three weight arrays. Setting a count does not touch the storage, so the arrays are total
  functions from the index and the counts say how much of them is meaningful.
\<close>

record Mask =
  VertexWeightCount :: nat
  EdgeWeightCount :: nat
  FaceWeightCount :: nat
  VertexWeight :: "nat \<Rightarrow> real"
  EdgeWeight :: "nat \<Rightarrow> real"
  FaceWeight :: "nat \<Rightarrow> real"

text \<open>The meaningful part of the three arrays, as lists.\<close>

definition vertWeights :: "Mask \<Rightarrow> real list" where
  "vertWeights m = map (VertexWeight m) [0..<VertexWeightCount m]"

definition edgeWeights :: "Mask \<Rightarrow> real list" where
  "edgeWeights m = map (EdgeWeight m) [0..<EdgeWeightCount m]"

definition faceWeights :: "Mask \<Rightarrow> real list" where
  "faceWeights m = map (FaceWeight m) [0..<FaceWeightCount m]"

text \<open>
  The \<^verbatim>\<open>EDGE\<close> neighbourhood template parameter: \<^verbatim>\<open>GetSharpness()\<close> and
  \<^verbatim>\<open>GetChildSharpnesses(crease, s)\<close>, which fills a two-element array.
\<close>

record EDGE =
  edge_GetSharpness :: real
  edge_GetChildSharpnesses :: "SdcCrease \<Rightarrow> real \<times> real"

text \<open>
  The \<^verbatim>\<open>VERTEX\<close> neighbourhood template parameter: \<^verbatim>\<open>GetEdgeCount()\<close>,
  \<^verbatim>\<open>GetFaceCount()\<close>, \<^verbatim>\<open>GetSharpness()\<close>, \<^verbatim>\<open>GetSharpnessPerEdge(buf)\<close>,
  \<^verbatim>\<open>GetChildSharpnessPerEdge(crease, buf)\<close> and \<^verbatim>\<open>GetChildSharpness(crease)\<close>.
\<close>

record VERTEX =
  vert_GetEdgeCount :: nat
  vert_GetFaceCount :: nat
  vert_GetSharpness :: real
  vert_GetSharpnessPerEdge :: "real list"
  vert_GetChildSharpnessPerEdge :: "SdcCrease \<Rightarrow> real list"
  vert_GetChildSharpness :: "SdcCrease \<Rightarrow> real"

text \<open>
  An instance of \<^verbatim>\<open>SdcScheme<SCHEME_TYPE>\<close>. The crease object built from its options and
  the three mask assignments that each scheme specialises (their Catmark bodies are in
  \<^verbatim>\<open>sdc/catmarkScheme.h\<close>, not part of the sources at hand) are parameters.
\<close>

record SdcScheme =
  crease_of_options :: SdcCrease
  assignSmoothMaskForEdge :: "EDGE \<Rightarrow> Mask \<Rightarrow> Mask"
  assignCreaseMaskForVertex :: "VERTEX \<Rightarrow> Mask \<Rightarrow> real list \<Rightarrow> Mask"
  assignSmoothMaskForVertex :: "VERTEX \<Rightarrow> Mask \<Rightarrow> Mask"

subsection \<open>Masks common to all schemes\<close>

definition assignCreaseMaskForEdge :: "EDGE \<Rightarrow> Mask \<Rightarrow> Mask" where
  "assignCreaseMaskForEdge edge msk =
     msk\<lparr>VertexWeightCount := 2, EdgeWeightCount := 0, FaceWeightCount := 0,
          VertexWeight := (VertexWeight msk)(0 := 1/2, 1 := 1/2)\<rparr>"

definition assignCornerMaskForVertex :: "VERTEX \<Rightarrow> Mask \<Rightarrow> Mask" where
  "assignCornerMaskForVertex vertex msk =
     msk\<lparr>VertexWeightCount := 1, EdgeWeightCount := 0, FaceWeightCount := 0,
          VertexWeight := (VertexWeight msk)(0 := 1)\<rparr>"

subsection \<open>ComputeEdgeVertexMask\<close>

text \<open>
  The local \<^verbatim>\<open>childIsCrease\<close> of \<^verbatim>\<open>ComputeEdgeVertexMask\<close>, computed when the child rule
  is \<^verbatim>\<open>RULE_UNKNOWN\<close>.
\<close>

definition childIsCrease :: "SdcScheme \<Rightarrow> EDGE \<Rightarrow> Rule \<Rightarrow> bool" where
  "childIsCrease S edge parentRule =
     (let crease = crease_of_options S in
      if parentRule = RULE_CREASE then True
      else if edge_GetSharpness edge \<ge> 1 then True
      else if IsUniform crease then False
      else (let cEdgeSharpness = edge_GetChildSharpnesses edge crease
            in fst cEdgeSharpness > 0 \<and> snd cEdgeSharpness > 0))"

text \<open>The closing loop \<^verbatim>\<open>mask.FaceWeight(i) *= cWeight\<close>.\<close>

definition attenuateFaceWeights :: "real \<Rightarrow> Mask \<Rightarrow> Mask" where
  "attenuateFaceWeights cWeight msk =
     fold (\<lambda>i m. m\<lparr>FaceWeight := (FaceWeight m)(i := FaceWeight m i * cWeight)\<rparr>)
          [0..<FaceWeightCount msk] msk"

text \<open>The crease-to-smooth tail of \<^verbatim>\<open>ComputeEdgeVertexMask\<close>.\<close>

definition creaseToSmooth :: "SdcScheme \<Rightarrow> EDGE \<Rightarrow> Mask \<Rightarrow> Mask" where
  "creaseToSmooth S edge msk =
     (let mask0 = assignSmoothMaskForEdge S edge msk;
          pWeight = edge_GetSharpness edge;
          cWeight = 1 - pWeight;
          mask1 = mask0\<lparr>VertexWeight := (VertexWeight mask0)
                     (0 := pWeight * (1/2) + cWeight * VertexWeight mask0 0)\<rparr>;
          mask2 = mask1\<lparr>VertexWeight := (VertexWeight mask1)
                     (1 := pWeight * (1/2) + cWeight * VertexWeight mask1 1)\<rparr>
      in attenuateFaceWeights cWeight mask2)"

definition ComputeEdgeVertexMask :: "SdcScheme \<Rightarrow> EDGE \<Rightarrow> Mask \<Rightarrow> Rule \<Rightarrow> Rule \<Rightarrow> Mask" where
  "ComputeEdgeVertexMask S edge msk parentRule childRule =
     (if parentRule = RULE_SMOOTH \<or> (parentRule = RULE_UNKNOWN \<and> edge_GetSharpness edge \<le> 0)
      then assignSmoothMaskForEdge S edge msk
      else if childRule = RULE_CREASE
      then assignCreaseMaskForEdge edge msk
      else if childRule = RULE_UNKNOWN \<and> childIsCrease S edge parentRule
      then assignCreaseMaskForEdge edge msk
      else creaseToSmooth S edge msk)"

text \<open>
  In the words of the spec: the crease-to-smooth blend with the weight \<open>w\<close> clamped to
  \<open>[0, 1]\<close>, to be compared with \<open>creaseToSmooth\<close>.
\<close>

definition clampedCreaseToSmooth :: "SdcScheme \<Rightarrow> EDGE \<Rightarrow> Mask \<Rightarrow> Mask" where
  "clampedCreaseToSmooth S edge msk =
     (let smooth = assignSmoothMaskForEdge S edge msk;
          w = min 1 (max 0 (edge_GetSharpness edge))
      in smooth\<lparr>VertexWeight := (VertexWeight smooth)
                   (0 := w * (1/2) + (1 - w) * VertexWeight smooth 0,
                    1 := w * (1/2) + (1 - w) * VertexWeight smooth 1),
                FaceWeight := (\<lambda>j. if j < FaceWeightCount smooth
                                    then FaceWeight smooth j * (1 - w)
                                    else FaceWeight smooth j)\<rparr>)"

subsection \<open>ComputeVertexVertexMask\<close>

text \<open>
  \<^verbatim>\<open>LocalMask::CombineVertexVertexMasks(thisCoeff, dstCoeff, dst)\<close>; the first argument is
  the local mask \<^verbatim>\<open>*this\<close>, the result is the destination after the call.
\<close>

definition CombineVertexVertexMasks :: "Mask \<Rightarrow> real \<Rightarrow> real \<Rightarrow> Mask \<Rightarrow> Mask" where
  "CombineVertexVertexMasks this thisCoeff dstCoeff dst =
     (let dst1 = dst\<lparr>VertexWeight := (VertexWeight dst)
                   (0 := dstCoeff * VertexWeight dst 0 + thisCoeff * VertexWeight this 0)\<rparr>;
          edgeWeightCount = EdgeWeightCount this;
          dst2 =
            (if edgeWeightCount \<noteq> 0 then
               (if EdgeWeightCount dst1 = 0 then
                  fold (\<lambda>i d. d\<lparr>EdgeWeight := (EdgeWeight d)(i := thisCoeff * EdgeWeight this i)\<rparr>)
                       [0..<edgeWeightCount] (dst1\<lparr>EdgeWeightCount := edgeWeightCount\<rparr>)
                else
                  fold (\<lambda>i d. d\<lparr>EdgeWeight := (EdgeWeight d)
                           (i := dstCoeff * EdgeWeight d i + thisCoeff * EdgeWeight this i)\<rparr>)
                       [0..<edgeWeightCount] dst1)
             else dst1);
          faceWeightCount = FaceWeightCount this
      in
        (if faceWeightCount \<noteq> 0 then
           (if FaceWeightCount dst2 = 0 then
              fold (\<lambda>i d. d\<lparr>FaceWeight := (FaceWeight d)(i := thisCoeff * FaceWeight this i)\<rparr>)
                   [0..<faceWeightCount] (dst2\<lparr>FaceWeightCount := faceWeightCount\<rparr>)
            else
              fold (\<lambda>i d. d\<lparr>FaceWeight := (FaceWeight d)
                       (i := dstCoeff * FaceWeight d i + thisCoeff * FaceWeight this i)\<rparr>)
                   [0..<faceWeightCount] dst2)
         else dst2))"

text \<open>
  The pieces of \<^verbatim>\<open>ComputeVertexVertexMask\<close>, in the order of the source. \<open>vvChildRule0\<close> is
  the child rule after the default "same as a specified parent"; \<open>vvParentRule\<close> is the parent
  rule after it has been determined from the sharpness values where unspecified. The parent
  sharpness values are gathered only when \<open>requireParentSharpness\<close> holds; otherwise the
  vertex sharpness keeps its initial \<^verbatim>\<open>0.0f\<close> and the edge array stays the null pointer,
  written \<open>[]\<close> (it is not read in that case).
\<close>

definition vvChildRule0 :: "Rule \<Rightarrow> Rule \<Rightarrow> Rule" where
  "vvChildRule0 pRule cRule =
     (if cRule = RULE_UNKNOWN \<and> pRule \<noteq> RULE_UNKNOWN then pRule else cRule)"

definition requireParentSharpness :: "Rule \<Rightarrow> Rule \<Rightarrow> bool" where
  "requireParentSharpness pRule cRule =
     (pRule = RULE_UNKNOWN \<or> pRule = RULE_CREASE \<or> pRule \<noteq> vvChildRule0 pRule cRule)"

definition pVertexSharpness :: "VERTEX \<Rightarrow> Rule \<Rightarrow> Rule \<Rightarrow> real" where
  "pVertexSharpness vertex pRule cRule =
     (if requireParentSharpness pRule cRule then vert_GetSharpness vertex else 0)"

definition pEdgeSharpness :: "VERTEX \<Rightarrow> Rule \<Rightarrow> Rule \<Rightarrow> real list" where
  "pEdgeSharpness vertex pRule cRule =
     (if requireParentSharpness pRule cRule then vert_GetSharpnessPerEdge vertex else [])"

definition vvParentRule :: "SdcScheme \<Rightarrow> VERTEX \<Rightarrow> Rule \<Rightarrow> Rule \<Rightarrow> Rule" where
  "vvParentRule S vertex pRule cRule =
     (if requireParentSharpness pRule cRule \<and> pRule = RULE_UNKNOWN
      then DetermineVertexVertexRule (crease_of_options S)
             (pVertexSharpness vertex pRule cRule) (vert_GetEdgeCount vertex)
             (pEdgeSharpness vertex pRule cRule)
      else pRule)"

text \<open>Assigning the mask of a rule that is neither Smooth nor Dart into the caller's mask.\<close>

definition vvParentMask :: "SdcScheme \<Rightarrow> VERTEX \<Rightarrow> Mask \<Rightarrow> Rule \<Rightarrow> Rule \<Rightarrow> Mask" where
  "vvParentMask S vertex msk pRule cRule =
     (let pRule' = vvParentRule S vertex pRule cRule in
      if pRule' = RULE_CREASE
      then assignCreaseMaskForVertex S vertex msk (pEdgeSharpness vertex pRule cRule)
      else if pRule' = RULE_CORNER then assignCornerMaskForVertex vertex msk
      else msk)"

text \<open>The child rule after it has been determined where still unspecified.\<close>

definition vvChildRule :: "SdcScheme \<Rightarrow> VERTEX \<Rightarrow> Rule \<Rightarrow> Rule \<Rightarrow> Rule" where
  "vvChildRule S vertex pRule cRule =
     (let crease = crease_of_options S in
      if vvChildRule0 pRule cRule = RULE_UNKNOWN
      then DetermineVertexVertexRule crease (vert_GetChildSharpness vertex crease)
             (vert_GetEdgeCount vertex) (vert_GetChildSharpnessPerEdge vertex crease)
      else vvChildRule0 pRule cRule)"

text \<open>
  The local child mask. Its storage \<^verbatim>\<open>cMaskWeights\<close> and its counts start uninitialised;
  \<open>cMask0\<close> stands for that initial content.
\<close>

definition vvChildMask :: "SdcScheme \<Rightarrow> Mask \<Rightarrow> VERTEX \<Rightarrow> Rule \<Rightarrow> Rule \<Rightarrow> Mask" where
  "vvChildMask S cMask0 vertex pRule cRule =
     (let crease = crease_of_options S; cRule' = vvChildRule S vertex pRule cRule in
      if cRule' = RULE_SMOOTH \<or> cRule' = RULE_DART
      then assignSmoothMaskForVertex S vertex cMask0
      else if cRule' = RULE_CREASE
      then assignCreaseMaskForVertex S vertex cMask0 (vert_GetChildSharpnessPerEdge vertex crease)
      else if cRule' = RULE_CORNER then assignCornerMaskForVertex vertex cMask0
      else cMask0)"

definition vvFractionalWeight :: "SdcScheme \<Rightarrow> VERTEX \<Rightarrow> Rule \<Rightarrow> Rule \<Rightarrow> real" where
  "vvFractionalWeight S vertex pRule cRule =
     (let crease = crease_of_options S in
      ComputeFractionalWeightAtVertex crease
        (pVertexSharpness vertex pRule cRule) (vert_GetChildSharpness vertex crease)
        (vert_GetEdgeCount vertex)
        (pEdgeSharpness vertex pRule cRule) (vert_GetChildSharpnessPerEdge vertex crease))"

definition ComputeVertexVertexMask ::
  "SdcScheme \<Rightarrow> Mask \<Rightarrow> VERTEX \<Rightarrow> Mask \<Rightarrow> Rule \<Rightarrow> Rule \<Rightarrow> Mask" where
  "ComputeVertexVertexMask S cMask0 vertex msk pRule cRule =
     (if pRule = RULE_SMOOTH \<or> pRule = RULE_DART
      then assignSmoothMaskForVertex S vertex msk
      else
        (let pRule' = vvParentRule S vertex pRule cRule in
         if pRule' = RULE_SMOOTH \<or> pRule' = RULE_DART
         then assignSmoothMaskForVertex S vertex msk
         else
           (let mask1 = vvParentMask S vertex msk pRule cRule in
            if vvChildRule0 pRule cRule = pRule' then mask1
            else if vvChildRule0 pRule cRule = RULE_UNKNOWN
                    \<and> vvChildRule S vertex pRule cRule = pRule' then mask1
            else
              (let cMask = vvChildMask S cMask0 vertex pRule cRule;
                   pWeight = vvFractionalWeight S vertex pRule cRule;
                   cWeight = 1 - pWeight
               in CombineVertexVertexMasks cMask cWeight pWeight mask1))))"

text \<open>
  The condition under which \<^verbatim>\<open>ComputeVertexVertexMask\<close> reaches the combination of two
  masks: the parent rule is neither Smooth nor Dart and the child rule differs from it.
\<close>

definition vvTransition :: "SdcScheme \<Rightarrow> VERTEX \<Rightarrow> Rule \<Rightarrow> Rule \<Rightarrow> bool" where
  "vvTransition S vertex pRule cRule =
     (vvParentRule S vertex pRule cRule \<notin> {RULE_SMOOTH, RULE_DART}
      \<and> vvChildRule0 pRule cRule \<noteq> vvParentRule S vertex pRule cRule
      \<and> vvChildRule S vertex pRule cRule \<noteq> vvParentRule S vertex pRule cRule)"

section \<open>Far: the refinement tables\<close>

datatype SdcType = TYPE_BILINEAR | TYPE_CATMARK | TYPE_LOOP

text \<open>
  Modelled from the spec: \<^verbatim>\<open>SdcOptions\<close> (\<^verbatim>\<open>sdc/options.h\<close> is not part of the sources at
  hand), the enumerated configuration options of the data model. The tables only store them.
\<close>

datatype VVarBoundaryInterpolation =
  VVAR_BOUNDARY_NONE | VVAR_BOUNDARY_EDGE_ONLY | VVAR_BOUNDARY_EDGE_AND_CORNER

datatype FVarBoundaryInterpolation =
  FVAR_BOUNDARY_SMOOTH_ALL | FVAR_BOUNDARY_EDGE_ONLY | FVAR_BOUNDARY_EDGE_AND_CORNER
  | FVAR_BOUNDARY_ALWAYS_SHARP | FVAR_BOUNDARY_NO_INTERP

datatype CreasingMethod = CREASE_UNIFORM | CREASE_CHAIKIN

datatype TriangleSubdivision = TRI_SUB_NORMAL | TRI_SUB_SMOOTH

record SdcOptions =
  vvarBoundaryInterpolation :: VVarBoundaryInterpolation
  fvarBoundaryInterpolation :: FVarBoundaryInterpolation
  creasingMethod :: CreasingMethod
  triangleSubdivision :: TriangleSubdivision

text \<open>
  Modelled from the spec: \<^verbatim>\<open>VtrLevel\<close> (\<^verbatim>\<open>vtr/level.h\<close> is not part of the sources at hand),
  the topology snapshot of the data model: the depth, the three counts, the six adjacency
  relations as ragged arrays of indices and the two sharpness arrays.
\<close>

record VtrLevel =
  depth :: nat
  faceCount :: nat
  edgeCount :: nat
  vertCount :: nat
  faceVerts :: "nat list list"
  faceEdges :: "nat list list"
  edgeVerts :: "nat list list"
  edgeFaces :: "nat list list"
  vertEdges :: "nat list list"
  vertFaces :: "nat list list"
  edgeSharpnesses :: "real list"
  vertSharpnesses :: "real list"

text \<open>
  The accessors return the index array of one component. Reading past the end of an array
  is undefined behaviour in the source and left unspecified here (\<open>xs ! i\<close>); a level that
  satisfies the invariants of the data model never does.
\<close>

definition accessFaceVerts :: "VtrLevel \<Rightarrow> nat \<Rightarrow> nat list" where
  "accessFaceVerts level face = faceVerts level ! face"

definition accessFaceEdges :: "VtrLevel \<Rightarrow> nat \<Rightarrow> nat list" where
  "accessFaceEdges level face = faceEdges level ! face"

definition accessEdgeVerts :: "VtrLevel \<Rightarrow> nat \<Rightarrow> nat list" where
  "accessEdgeVerts level edge = edgeVerts level ! edge"

definition accessEdgeFaces :: "VtrLevel \<Rightarrow> nat \<Rightarrow> nat list" where
  "accessEdgeFaces level edge = edgeFaces level ! edge"

definition accessVertEdges :: "VtrLevel \<Rightarrow> nat \<Rightarrow> nat list" where
  "accessVertEdges level vert = vertEdges level ! vert"

definition accessVertFaces :: "VtrLevel \<Rightarrow> nat \<Rightarrow> nat list" where
  "accessVertFaces level vert = vertFaces level ! vert"

definition edgeSharpness :: "VtrLevel \<Rightarrow> nat \<Rightarrow> real" where
  "edgeSharpness level edge = edgeSharpnesses level ! edge"

definition vertSharpness :: "VtrLevel \<Rightarrow> nat \<Rightarrow> real" where
  "vertSharpness level vert = vertSharpnesses level ! vert"

text \<open>A default-constructed level: the element \<^verbatim>\<open>std::vector::resize\<close> appends.\<close>

definition emptyLevel :: VtrLevel where
  "emptyLevel = \<lparr>depth = 0, faceCount = 0, edgeCount = 0, vertCount = 0,
     faceVerts = [], faceEdges = [], edgeVerts = [], edgeFaces = [],
     vertEdges = [], vertFaces = [], edgeSharpnesses = [], vertSharpnesses = []\<rparr>"

text \<open>\<^verbatim>\<open>VtrRefinement::Options\<close>, with the five fields the tables assign.\<close>

record RefineOptions =
  opt_sparse :: bool
  opt_faceTopologyOnly :: bool
  opt_computeMasks :: bool
  opt_parentTagging :: bool
  opt_childTagging :: bool

text \<open>
  The parts of Vtr and Sdc that the tables use and that are not part of the sources at hand,
  as parameters; \<open>'r\<close> is the content of a \<^verbatim>\<open>VtrRefinement\<close>.
  \<^item> \<open>emptyRefinement\<close>: a default-constructed refinement;
  \<^item> \<open>defaultOptions\<close>: a default-constructed \<^verbatim>\<open>VtrRefinement::Options\<close>;
  \<^item> \<open>vtr_refine options parent selected\<close>: \<^verbatim>\<open>initialize(parent, child)\<close> followed by
    \<^verbatim>\<open>refine(options)\<close> on the faces the selector has marked, giving the child level and
    the refinement. Modelled from the spec: \<^verbatim>\<open>initialize\<close> empties the child and a built
    level is not mutated, so the result is a function of these three arguments;
  \<^item> \<open>childVertexIncomplete r v\<close>: the tag "incomplete" of child vertex \<open>v\<close> of refinement \<open>r\<close>;
  \<^item> \<open>crease_INFINITE\<close>: the constant \<^verbatim>\<open>SdcCrease::INFINITE\<close>.
\<close>

record 'r Vtr =
  emptyRefinement :: 'r
  defaultOptions :: RefineOptions
  vtr_refine :: "RefineOptions \<Rightarrow> VtrLevel \<Rightarrow> nat set \<Rightarrow> VtrLevel \<times> 'r"
  childVertexIncomplete :: "'r \<Rightarrow> nat \<Rightarrow> bool"
  crease_INFINITE :: real

subsection \<open>The sparse selector\<close>

text \<open>
  Modelled from the spec: \<^verbatim>\<open>VtrSparseSelector\<close> (\<^verbatim>\<open>vtr/sparseSelector.h\<close> is not part of
  the sources at hand). It knows the parent level of its refinement and the previous
  refinement, goes through the phases Unstarted, Selecting, Finalized, and accumulates the
  set of marked faces: \<^verbatim>\<open>selectFace(f)\<close> marks \<open>f\<close>, \<^verbatim>\<open>selectVertexFaces(v)\<close> marks all
  faces incident to \<open>v\<close>, and a vertex is incomplete when the previous refinement tagged it so.
\<close>

datatype SelectorPhase = Unstarted | Selecting | Finalized

record 'r VtrSparseSelector =
  sel_parent :: VtrLevel
  sel_previous :: "'r option"
  sel_phase :: SelectorPhase
  sel_faces :: "nat set"

definition newSelector :: "VtrLevel \<Rightarrow> 'r VtrSparseSelector" where
  "newSelector parentLevel =
     \<lparr>sel_parent = parentLevel, sel_previous = None, sel_phase = Unstarted, sel_faces = {}\<rparr>"

definition setPreviousRefinement :: "'r option \<Rightarrow> 'r VtrSparseSelector \<Rightarrow> 'r VtrSparseSelector" where
  "setPreviousRefinement prev sel = sel\<lparr>sel_previous := prev\<rparr>"

definition beginSelection :: "bool \<Rightarrow> 'r VtrSparseSelector \<Rightarrow> 'r VtrSparseSelector" where
  "beginSelection parentTagging sel = sel\<lparr>sel_phase := Selecting\<rparr>"

definition endSelection :: "'r VtrSparseSelector \<Rightarrow> 'r VtrSparseSelector" where
  "endSelection sel = sel\<lparr>sel_phase := Finalized\<rparr>"

definition selectFace :: "nat \<Rightarrow> 'r VtrSparseSelector \<Rightarrow> 'r VtrSparseSelector" where
  "selectFace face sel = sel\<lparr>sel_faces := insert face (sel_faces sel)\<rparr>"

definition selectVertexFaces :: "nat \<Rightarrow> 'r VtrSparseSelector \<Rightarrow> 'r VtrSparseSelector" where
  "selectVertexFaces vert sel = fold selectFace (accessVertFaces (sel_parent sel) vert) sel"

definition isVertexIncomplete :: "'r Vtr \<Rightarrow> 'r VtrSparseSelector \<Rightarrow> nat \<Rightarrow> bool" where
  "isVertexIncomplete V sel vert =
     (case sel_previous sel of None \<Rightarrow> False | Some r \<Rightarrow> childVertexIncomplete V r vert)"

definition isSelectionEmpty :: "'r VtrSparseSelector \<Rightarrow> bool" where
  "isSelectionEmpty sel = (sel_faces sel = {})"

subsection \<open>catmarkFeatureAdaptiveSelector\<close>

text \<open>The local \<^verbatim>\<open>boundaryEdgeSum\<close> of the face loop: a sum of four comparisons.\<close>

definition boundaryEdgeSum :: "VtrLevel \<Rightarrow> nat list \<Rightarrow> int" where
  "boundaryEdgeSum level fEdges =
     of_bool (length (accessEdgeFaces level (fEdges ! 0)) = 1) +
     of_bool (length (accessEdgeFaces level (fEdges ! 1)) = 1) +
     of_bool (length (accessEdgeFaces level (fEdges ! 2)) = 1) +
     of_bool (length (accessEdgeFaces level (fEdges ! 3)) = 1)"

text \<open>The condition under which the face loop selects a face with four vertices.\<close>

definition quadNeedsIsolation :: "VtrLevel \<Rightarrow> nat \<Rightarrow> bool" where
  "quadNeedsIsolation level face =
     (let fEdges = accessFaceEdges level face;
          bSum = boundaryEdgeSum level fEdges
      in bSum > 2 \<or> (bSum = 2 \<and>
           length (accessEdgeFaces level (fEdges ! 0)) = length (accessEdgeFaces level (fEdges ! 2))))"

text \<open>One pass of the body of the face loop.\<close>

definition faceStep :: "VtrLevel \<Rightarrow> nat \<Rightarrow> 'r VtrSparseSelector \<Rightarrow> 'r VtrSparseSelector" where
  "faceStep level face sel =
     (let fVerts = accessFaceVerts level face in
      if length fVerts \<noteq> 4 then selectFace face sel
      else if quadNeedsIsolation level face then selectFace face sel
      else sel)"

text \<open>The local \<^verbatim>\<open>selectVertex\<close> of the vertex loop, for a vertex that is not skipped.\<close>

definition selectVertex :: "'r Vtr \<Rightarrow> VtrLevel \<Rightarrow> nat \<Rightarrow> bool" where
  "selectVertex V level vert =
     (let vSharpness = vertSharpness level vert in
      if vSharpness > 0
      then length (accessVertFaces level vert) \<noteq> 1 \<or> vSharpness < crease_INFINITE V
      else
        (let vFaces = accessVertFaces level vert;
             vEdges = accessVertEdges level vert
         in if length vFaces = length vEdges then length vFaces \<noteq> 4
            else length vFaces \<noteq> 2))"

text \<open>One pass of the body of the vertex loop.\<close>

definition vertStep ::
  "'r Vtr \<Rightarrow> VtrLevel \<Rightarrow> nat \<Rightarrow> 'r VtrSparseSelector \<Rightarrow> 'r VtrSparseSelector" where
  "vertStep V level vert sel =
     (if isVertexIncomplete V sel vert then sel
      else if selectVertex V level vert then selectVertexFaces vert sel
      else sel)"

text \<open>One pass of the body of the edge loop.\<close>

definition edgeStep ::
  "'r Vtr \<Rightarrow> VtrLevel \<Rightarrow> nat \<Rightarrow> 'r VtrSparseSelector \<Rightarrow> 'r VtrSparseSelector" where
  "edgeStep V level edge sel =
     (if edgeSharpness level edge \<le> 0 \<or> length (accessEdgeFaces level edge) < 2 then sel
      else
        (let eVerts = accessEdgeVerts level edge;
             sel1 = (if \<not> isVertexIncomplete V sel (eVerts ! 0)
                     then selectVertexFaces (eVerts ! 0) sel else sel)
         in if \<not> isVertexIncomplete V sel1 (eVerts ! 1)
            then selectVertexFaces (eVerts ! 1) sel1 else sel1))"

text \<open>The three loops: over the faces (at level 0 only), the vertices and the edges.\<close>

definition faceLoop :: "VtrLevel \<Rightarrow> 'r VtrSparseSelector \<Rightarrow> 'r VtrSparseSelector" where
  "faceLoop level sel =
     (if depth level = 0 then fold (faceStep level) [0..<faceCount level] sel else sel)"

definition vertLoop :: "'r Vtr \<Rightarrow> VtrLevel \<Rightarrow> 'r VtrSparseSelector \<Rightarrow> 'r VtrSparseSelector" where
  "vertLoop V level sel = fold (vertStep V level) [0..<vertCount level] sel"

definition edgeLoop :: "'r Vtr \<Rightarrow> VtrLevel \<Rightarrow> 'r VtrSparseSelector \<Rightarrow> 'r VtrSparseSelector" where
  "edgeLoop V level sel = fold (edgeStep V level) [0..<edgeCount level] sel"

definition catmarkFeatureAdaptiveSelector ::
  "'r Vtr \<Rightarrow> 'r VtrSparseSelector \<Rightarrow> 'r VtrSparseSelector" where
  "catmarkFeatureAdaptiveSelector V selector =
     (let level = sel_parent selector
      in edgeLoop V level (vertLoop V level (faceLoop level selector)))"

text \<open>
  In the words of the spec: the count of boundary edges of a face, a boundary edge being an
  edge with exactly one incident face.
\<close>

definition boundaryEdgeCount :: "VtrLevel \<Rightarrow> nat \<Rightarrow> nat" where
  "boundaryEdgeCount level face =
     length (filter (\<lambda>e. length (accessEdgeFaces level e) = 1) (accessFaceEdges level face))"

subsection \<open>FarRefineTables\<close>

record 'r FarRefineTables =
  subdivType :: SdcType
  subdivOptions :: SdcOptions
  isUniform :: bool
  maxLevel :: int
  levels :: "VtrLevel list"
  refinements :: "'r list"

text \<open>\<^verbatim>\<open>std::vector::resize(n)\<close>: truncate, or append default-constructed elements.\<close>

definition resize :: "nat \<Rightarrow> 'a \<Rightarrow> 'a list \<Rightarrow> 'a list" where
  "resize n dflt xs = take n xs @ replicate (n - length xs) dflt"

text \<open>The constructor: \<^verbatim>\<open>_levels(1)\<close> holds one default-constructed level.\<close>

definition newFarRefineTables :: "SdcType \<Rightarrow> SdcOptions \<Rightarrow> 'r FarRefineTables" where
  "newFarRefineTables schemeType schemeOptions =
     \<lparr>subdivType = schemeType, subdivOptions = schemeOptions, isUniform = True, maxLevel = 0,
      levels = [emptyLevel], refinements = []\<rparr>"

definition Unrefine :: "'r FarRefineTables \<Rightarrow> 'r FarRefineTables" where
  "Unrefine t =
     (let t1 = (if length (levels t) \<noteq> 0 then t\<lparr>levels := resize 1 emptyLevel (levels t)\<rparr> else t)
      in t1\<lparr>refinements := []\<rparr>)"

definition Clear :: "'r FarRefineTables \<Rightarrow> 'r FarRefineTables" where
  "Clear t = t\<lparr>levels := [], refinements := []\<rparr>"

text \<open>
  The ways in which a refinement call does not return: the read of \<^verbatim>\<open>_levels[0]\<close> when
  there is no level at all (after \<^verbatim>\<open>Clear\<close>), a failed \<^verbatim>\<open>assert\<close>, the overflow of
  \<^verbatim>\<open>maxLevel + 1\<close> in the type \<^verbatim>\<open>int\<close>, and the \<^verbatim>\<open>std::length_error\<close> of
  \<^verbatim>\<open>resize\<close> when a negative size is converted to \<^verbatim>\<open>size_t\<close>.
\<close>

datatype FarError =
  NoBaseLevel | AssertBaseLevelEmpty | AssertNotCatmark | IntOverflow | LengthError

text \<open>The largest value of the 32-bit type \<^verbatim>\<open>int\<close> of the level arguments.\<close>

definition INT_MAX :: int where
  "INT_MAX = 2147483647"

text \<open>The two \<^verbatim>\<open>assert\<close>s at the start of \<^verbatim>\<open>RefineUniform\<close> and \<^verbatim>\<open>RefineAdaptive\<close>.\<close>

definition refineAsserts :: "'r FarRefineTables \<Rightarrow> FarError option" where
  "refineAsserts t =
     (if levels t = [] then Some NoBaseLevel
      else if \<not> vertCount (levels t ! 0) > 0 then Some AssertBaseLevelEmpty
      else if subdivType t \<noteq> TYPE_CATMARK then Some AssertNotCatmark
      else None)"

text \<open>
  The sizes \<^verbatim>\<open>maxLevel + 1\<close> and \<^verbatim>\<open>maxLevel\<close> passed to the two \<^verbatim>\<open>resize\<close> calls. The
  sum is computed in \<^verbatim>\<open>int\<close>: at \<open>INT_MAX\<close> it overflows, and no level argument is larger.
  A negative level makes one of the two sizes negative.
\<close>

definition stackSizes :: "int \<Rightarrow> FarError + nat \<times> nat" where
  "stackSizes level =
     (if level \<ge> INT_MAX then Inl IntOverflow
      else if level < 0 then Inl LengthError
      else Inr (nat (level + 1), nat level))"

text \<open>
  The start of both refinement methods after the asserts: \<^verbatim>\<open>_isUniform\<close> and
  \<^verbatim>\<open>_maxLevel\<close> are assigned and the two vectors resized.
\<close>

definition allocate ::
  "'r Vtr \<Rightarrow> bool \<Rightarrow> int \<Rightarrow> 'r FarRefineTables \<Rightarrow> FarError + 'r FarRefineTables" where
  "allocate V uniform level t =
     (case stackSizes level of
        Inl e \<Rightarrow> Inl e
      | Inr (levelCount, refinementCount) \<Rightarrow>
          Inr (t\<lparr>isUniform := uniform, maxLevel := level,
                 levels := resize levelCount emptyLevel (levels t),
                 refinements := resize refinementCount (emptyRefinement V) (refinements t)\<rparr>))"

text \<open>
  One pass of the loop of \<^verbatim>\<open>RefineUniform\<close>, for \<open>1 \<le> i \<le> maxLevel\<close>. The loops run
  only for a level below \<open>INT_MAX\<close>, so their counter does not overflow.
\<close>

definition uniformStep ::
  "'r Vtr \<Rightarrow> bool \<Rightarrow> nat \<Rightarrow> nat \<Rightarrow> RefineOptions \<times> 'r FarRefineTables
     \<Rightarrow> RefineOptions \<times> 'r FarRefineTables" where
  "uniformStep V fullTopology maxLvl i s =
     (let refineOptions = (fst s)\<lparr>opt_faceTopologyOnly := (if fullTopology then False else i = maxLvl)\<rparr>;
          t = snd s;
          (child, r) = vtr_refine V refineOptions (levels t ! (i - 1)) {}
      in (refineOptions,
          t\<lparr>levels := (levels t)[i := child], refinements := (refinements t)[i - 1 := r]\<rparr>))"

definition RefineUniform ::
  "'r Vtr \<Rightarrow> int \<Rightarrow> bool \<Rightarrow> bool \<Rightarrow> 'r FarRefineTables \<Rightarrow> FarError + 'r FarRefineTables" where
  "RefineUniform V maxLvl fullTopology computeMasks t =
     (case refineAsserts t of
        Some e \<Rightarrow> Inl e
      | None \<Rightarrow>
         (case allocate V True maxLvl t of
            Inl e \<Rightarrow> Inl e
          | Inr t1 \<Rightarrow>
             (let n = nat maxLvl;
                  refineOptions = (defaultOptions V)\<lparr>opt_sparse := False, opt_computeMasks := computeMasks\<rparr>
              in Inr (snd (fold (uniformStep V fullTopology n) [1..<n + 1] (refineOptions, t1))))))"

text \<open>
  The selector of iteration \<open>i\<close> of \<^verbatim>\<open>RefineAdaptive\<close> after \<^verbatim>\<open>endSelection\<close>: it is built
  on the parent level \<^verbatim>\<open>_levels[i-1]\<close> and knows the previous refinement
  \<^verbatim>\<open>_refinements[i-2]\<close> when \<open>i - 1\<close> is not zero.
\<close>

definition adaptiveSelector :: "'r Vtr \<Rightarrow> 'r FarRefineTables \<Rightarrow> nat \<Rightarrow> 'r VtrSparseSelector" where
  "adaptiveSelector V t i =
     (let parentTagging = True;
          parentLevel = levels t ! (i - 1);
          selector0 = setPreviousRefinement
                        (if i - 1 \<noteq> 0 then Some (refinements t ! (i - 2)) else None)
                        (newSelector parentLevel);
          selector1 = beginSelection parentTagging selector0;
          selector2 = catmarkFeatureAdaptiveSelector V selector1
      in endSelection selector2)"

text \<open>The branch of the loop body that refines: something was selected.\<close>

definition adaptiveRefineStep ::
  "'r Vtr \<Rightarrow> RefineOptions \<Rightarrow> 'r FarRefineTables \<Rightarrow> nat \<Rightarrow> 'r FarRefineTables" where
  "adaptiveRefineStep V refineOptions t i =
     (let (child, r) = vtr_refine V refineOptions (levels t ! (i - 1))
                         (sel_faces (adaptiveSelector V t i))
      in t\<lparr>levels := (levels t)[i := child], refinements := (refinements t)[i - 1 := r]\<rparr>)"

text \<open>The branch of the loop body that trims the two vectors and leaves the loop.\<close>

definition adaptiveTrim :: "'r Vtr \<Rightarrow> 'r FarRefineTables \<Rightarrow> nat \<Rightarrow> 'r FarRefineTables" where
  "adaptiveTrim V t i =
     (let maxLvl = i - 1
      in t\<lparr>maxLevel := int maxLvl,
           levels := resize (maxLvl + 1) emptyLevel (levels t),
           refinements := resize maxLvl (emptyRefinement V) (refinements t)\<rparr>)"

text \<open>The loop of \<^verbatim>\<open>RefineAdaptive\<close> from iteration \<open>i\<close> on (\<open>i\<close> starts at 1).\<close>

function adaptiveLoop ::
  "'r Vtr \<Rightarrow> RefineOptions \<Rightarrow> nat \<Rightarrow> nat \<Rightarrow> 'r FarRefineTables \<Rightarrow> 'r FarRefineTables" where
  "adaptiveLoop V refineOptions subdivLevel i t =
     (if i \<le> subdivLevel then
        (let refineOptions' = refineOptions\<lparr>opt_faceTopologyOnly := False\<rparr>
         in if \<not> isSelectionEmpty (adaptiveSelector V t i)
            then adaptiveLoop V refineOptions' subdivLevel (i + 1)
                   (adaptiveRefineStep V refineOptions' t i)
            else adaptiveTrim V t i)
      else t)"
  by pat_completeness auto
termination
  by (relation "measure (\<lambda>(V, refineOptions, subdivLevel, i, t). subdivLevel + 1 - i)") auto

declare adaptiveLoop.simps [simp del]

definition adaptiveOptions :: "'r Vtr \<Rightarrow> bool \<Rightarrow> bool \<Rightarrow> RefineOptions" where
  "adaptiveOptions V fullTopology computeMasks =
     (let parentTagging = True; childTagging = True
      in (defaultOptions V)\<lparr>opt_sparse := True, opt_faceTopologyOnly := \<not> fullTopology,
           opt_computeMasks := computeMasks, opt_parentTagging := parentTagging,
           opt_childTagging := childTagging\<rparr>)"

definition RefineAdaptive ::
  "'r Vtr \<Rightarrow> int \<Rightarrow> bool \<Rightarrow> bool \<Rightarrow> 'r FarRefineTables \<Rightarrow> FarError + 'r FarRefineTables" where
  "RefineAdaptive V subdivLevel fullTopology computeMasks t =
     (case refineAsserts t of
        Some e \<Rightarrow> Inl e
      | None \<Rightarrow>
         (case allocate V False subdivLevel t of
            Inl e \<Rightarrow> Inl e
          | Inr t1 \<Rightarrow>
              Inr (adaptiveLoop V (adaptiveOptions V fullTopology computeMasks) (nat subdivLevel) 1 t1)))"


section \<open>Concrete inputs\<close>

text \<open>
  The inputs at which the theorems below are instantiated. The Catmark masks and the crease
  methods stand in for \<^verbatim>\<open>sdc/catmarkScheme.h\<close> and \<^verbatim>\<open>sdc/crease.h\<close>.
\<close>

text \<open>
  Modelled from the spec: \<^verbatim>\<open>SdcCrease::DetermineVertexVertexRule\<close> (\<^verbatim>\<open>sdc/crease.h\<close> is not
  part of the sources at hand). With \<open>k\<close> the number of incident edges of positive
  sharpness: Corner when the vertex sharpness is at least 1, else Smooth, Dart, Crease for
  \<open>k = 0, 1, 2\<close> and Corner for \<open>k \<ge> 3\<close>.
\<close>

definition determineVertexRule :: "real \<Rightarrow> nat \<Rightarrow> real list \<Rightarrow> Rule" where
  "determineVertexRule vertexSharpness valence edgeSharps =
     (let k = length (filter (\<lambda>s. s > 0) (take valence edgeSharps)) in
      if vertexSharpness \<ge> 1 then RULE_CORNER
      else if k = 0 then RULE_SMOOTH
      else if k = 1 then RULE_DART
      else if k = 2 then RULE_CREASE
      else RULE_CORNER)"

text \<open>
  Modelled from the spec: \<^verbatim>\<open>SdcCrease::ComputeFractionalWeightAtVertex\<close> (\<^verbatim>\<open>sdc/crease.h\<close> is
  not part of the sources at hand), for a vertex whose own sharpness makes the transition:
  the parent sharpness clamped to \<open>[0, 1]\<close>, hence 1 when the parent sharpness is at least 1.
\<close>

definition fractionalWeightAtSharpVertex :: "real \<Rightarrow> real \<Rightarrow> nat \<Rightarrow> real list \<Rightarrow> real list \<Rightarrow> real" where
  "fractionalWeightAtSharpVertex pVertSharp cVertSharp valence pEdgeSharps cEdgeSharps =
     min 1 (max 0 pVertSharp)"

definition uniformCrease :: SdcCrease where
  "uniformCrease = \<lparr>IsUniform = True, DetermineVertexVertexRule = determineVertexRule,
     ComputeFractionalWeightAtVertex = fractionalWeightAtSharpVertex\<rparr>"

definition chaikinCrease :: SdcCrease where
  "chaikinCrease = \<lparr>IsUniform = False, DetermineVertexVertexRule = determineVertexRule,
     ComputeFractionalWeightAtVertex = fractionalWeightAtSharpVertex\<rparr>"

text \<open>
  Modelled from the spec: the Catmark smooth edge mask (\<^verbatim>\<open>sdc/catmarkScheme.h\<close> is not part of
  the sources at hand) as the spec gives it for an edge with two adjacent quads: vertex
  weights \<open>[3/8, 3/8]\<close> and four face weights \<open>1/16\<close>.
\<close>

definition catmarkSmoothMaskForEdge :: "EDGE \<Rightarrow> Mask \<Rightarrow> Mask" where
  "catmarkSmoothMaskForEdge edge msk =
     msk\<lparr>VertexWeightCount := 2, EdgeWeightCount := 0, FaceWeightCount := 4,
          VertexWeight := (VertexWeight msk)(0 := 3/8, 1 := 3/8),
          FaceWeight := (\<lambda>i. if i < 4 then 1/16 else FaceWeight msk i)\<rparr>"

text \<open>
  Modelled from the spec: the Catmark smooth vertex mask for valence \<open>n\<close>: vertex weight
  \<open>(n - 2) / n\<close>, every incident edge and every incident face weight \<open>1 / n\<^sup>2\<close>.
\<close>

definition catmarkSmoothMaskForVertex :: "VERTEX \<Rightarrow> Mask \<Rightarrow> Mask" where
  "catmarkSmoothMaskForVertex vertex msk =
     (let n = vert_GetEdgeCount vertex in
      msk\<lparr>VertexWeightCount := 1, EdgeWeightCount := n, FaceWeightCount := vert_GetFaceCount vertex,
           VertexWeight := (VertexWeight msk)(0 := (real n - 2) / real n),
           EdgeWeight := (\<lambda>i. if i < n then 1 / (real n * real n) else EdgeWeight msk i),
           FaceWeight := (\<lambda>i. if i < vert_GetFaceCount vertex then 1 / (real n * real n)
                               else FaceWeight msk i)\<rparr>)"

text \<open>
  Modelled from the spec: the Catmark crease vertex mask: vertex weight \<open>6/8\<close>, weight \<open>1/8\<close>
  for the sharp incident edges, zero for the other edges, no face weights.
\<close>

definition catmarkCreaseMaskForVertex :: "VERTEX \<Rightarrow> Mask \<Rightarrow> real list \<Rightarrow> Mask" where
  "catmarkCreaseMaskForVertex vertex msk sharpness =
     (let n = vert_GetEdgeCount vertex in
      msk\<lparr>VertexWeightCount := 1, EdgeWeightCount := n, FaceWeightCount := 0,
           VertexWeight := (VertexWeight msk)(0 := 6/8),
           EdgeWeight := (\<lambda>i. if i < n then (if sharpness ! i > 0 then 1/8 else 0)
                               else EdgeWeight msk i)\<rparr>)"

definition catmarkUniform :: SdcScheme where
  "catmarkUniform = \<lparr>crease_of_options = uniformCrease,
     assignSmoothMaskForEdge = catmarkSmoothMaskForEdge,
     assignCreaseMaskForVertex = catmarkCreaseMaskForVertex,
     assignSmoothMaskForVertex = catmarkSmoothMaskForVertex\<rparr>"

definition catmarkChaikin :: SdcScheme where
  "catmarkChaikin = \<lparr>crease_of_options = chaikinCrease,
     assignSmoothMaskForEdge = catmarkSmoothMaskForEdge,
     assignCreaseMaskForVertex = catmarkCreaseMaskForVertex,
     assignSmoothMaskForVertex = catmarkSmoothMaskForVertex\<rparr>"

text \<open>A mask before it is assigned: no weights.\<close>

definition zeroMask :: Mask where
  "zeroMask = \<lparr>VertexWeightCount = 0, EdgeWeightCount = 0, FaceWeightCount = 0,
     VertexWeight = (\<lambda>i. 0), EdgeWeight = (\<lambda>i. 0), FaceWeight = (\<lambda>i. 0)\<rparr>"

text \<open>Edges: smooth; sharpness 2; semi-sharp with two Chaikin child values; sharpness 5/4.\<close>

definition smoothEdge :: EDGE where
  "smoothEdge = \<lparr>edge_GetSharpness = 0, edge_GetChildSharpnesses = (\<lambda>c. (0, 0))\<rparr>"

definition sharpEdge :: EDGE where
  "sharpEdge = \<lparr>edge_GetSharpness = 2, edge_GetChildSharpnesses = (\<lambda>c. (1, 1))\<rparr>"

definition semiSharpEdge :: EDGE where
  "semiSharpEdge = \<lparr>edge_GetSharpness = 1/2, edge_GetChildSharpnesses = (\<lambda>c. (1/4, 1/8))\<rparr>"

definition decayingEdge :: EDGE where
  "decayingEdge = \<lparr>edge_GetSharpness = 1/2, edge_GetChildSharpnesses = (\<lambda>c. (1/4, 0))\<rparr>"

definition overSharpEdge :: EDGE where
  "overSharpEdge = \<lparr>edge_GetSharpness = 5/4, edge_GetChildSharpnesses = (\<lambda>c. (0, 0))\<rparr>"

text \<open>
  A vertex of valence 4 with vertex sharpness 1 and smooth edges: a Corner whose child, with
  sharpness 0, is Smooth.
\<close>

definition cornerVertex :: VERTEX where
  "cornerVertex = \<lparr>vert_GetEdgeCount = 4, vert_GetFaceCount = 4, vert_GetSharpness = 1,
     vert_GetSharpnessPerEdge = [0, 0, 0, 0],
     vert_GetChildSharpnessPerEdge = (\<lambda>c. [0, 0, 0, 0]),
     vert_GetChildSharpness = (\<lambda>c. 0)\<rparr>"

text \<open>
  The same neighbourhood with vertex sharpness 3/4, for a caller that specifies the rules
  Corner and Smooth.
\<close>

definition semiSharpVertex :: VERTEX where
  "semiSharpVertex = \<lparr>vert_GetEdgeCount = 4, vert_GetFaceCount = 4, vert_GetSharpness = 3/4,
     vert_GetSharpnessPerEdge = [0, 0, 0, 0],
     vert_GetChildSharpnessPerEdge = (\<lambda>c. [0, 0, 0, 0]),
     vert_GetChildSharpness = (\<lambda>c. 0)\<rparr>"

text \<open>A closed regular quad mesh with one vertex, two edges and one face (a torus).\<close>

definition torusLevel :: VtrLevel where
  "torusLevel = \<lparr>depth = 0, faceCount = 1, edgeCount = 2, vertCount = 1,
     faceVerts = [[0, 0, 0, 0]], faceEdges = [[0, 1, 0, 1]],
     edgeVerts = [[0, 0], [0, 0]], edgeFaces = [[0, 0], [0, 0]],
     vertEdges = [[0, 1, 0, 1]], vertFaces = [[0, 0, 0, 0]],
     edgeSharpnesses = [0, 0], vertSharpnesses = [0]\<rparr>"

text \<open>A single triangle.\<close>

definition triangleLevel :: VtrLevel where
  "triangleLevel = \<lparr>depth = 0, faceCount = 1, edgeCount = 3, vertCount = 3,
     faceVerts = [[0, 1, 2]], faceEdges = [[0, 1, 2]],
     edgeVerts = [[0, 1], [1, 2], [2, 0]], edgeFaces = [[0], [0], [0]],
     vertEdges = [[0, 2], [0, 1], [1, 2]], vertFaces = [[0], [0], [0]],
     edgeSharpnesses = [0, 0, 0], vertSharpnesses = [0, 0, 0]\<rparr>"

text \<open>
  A strip of three quads in a row (eight vertices, ten edges); the middle face has its two
  boundary edges opposite, the outer faces have three boundary edges.
\<close>

definition stripLevel :: VtrLevel where
  "stripLevel = \<lparr>depth = 0, faceCount = 3, edgeCount = 10, vertCount = 8,
     faceVerts = [[0, 1, 5, 4], [1, 2, 6, 5], [2, 3, 7, 6]],
     faceEdges = [[0, 7, 3, 6], [1, 8, 4, 7], [2, 9, 5, 8]],
     edgeVerts = [[0, 1], [1, 2], [2, 3], [4, 5], [5, 6], [6, 7], [0, 4], [1, 5], [2, 6], [3, 7]],
     edgeFaces = [[0], [1], [2], [0], [1], [2], [0], [0, 1], [1, 2], [2]],
     vertEdges = [[0, 6], [0, 1, 7], [1, 2, 8], [2, 9], [3, 6], [3, 4, 7], [4, 5, 8], [5, 9]],
     vertFaces = [[0], [0, 1], [1, 2], [2], [0], [0, 1], [1, 2], [2]],
     edgeSharpnesses = [0, 0, 0, 0, 0, 0, 0, 0, 0, 0],
     vertSharpnesses = [10, 10, 0, 0, 1, 0, 0, 0]\<rparr>"


text \<open>A single quad whose four corners are infinitely sharp.\<close>

definition sharpQuadLevel :: VtrLevel where
  "sharpQuadLevel = \<lparr>depth = 0, faceCount = 1, edgeCount = 4, vertCount = 4,
     faceVerts = [[0, 1, 2, 3]], faceEdges = [[0, 1, 2, 3]],
     edgeVerts = [[0, 1], [1, 2], [2, 3], [3, 0]], edgeFaces = [[0], [0], [0], [0]],
     vertEdges = [[0, 3], [0, 1], [1, 2], [2, 3]], vertFaces = [[0], [0], [0], [0]],
     edgeSharpnesses = [0, 0, 0, 0], vertSharpnesses = [10, 10, 10, 10]\<rparr>"

definition defaultSdcOptions :: SdcOptions where
  "defaultSdcOptions = \<lparr>vvarBoundaryInterpolation = VVAR_BOUNDARY_EDGE_ONLY,
     fvarBoundaryInterpolation = FVAR_BOUNDARY_SMOOTH_ALL, creasingMethod = CREASE_UNIFORM,
     triangleSubdivision = TRI_SUB_NORMAL\<rparr>"

text \<open>
  A stand-in for Vtr: a refinement records the options and the selection it was built from,
  and every child level is the regular torus one level deeper than its parent.
\<close>

definition noRefineOptions :: RefineOptions where
  "noRefineOptions = \<lparr>opt_sparse = False, opt_faceTopologyOnly = False, opt_computeMasks = False,
     opt_parentTagging = False, opt_childTagging = False\<rparr>"

definition recordingVtr :: "(RefineOptions \<times> nat set) Vtr" where
  "recordingVtr =
     \<lparr>emptyRefinement = (noRefineOptions, {}), defaultOptions = noRefineOptions,
      vtr_refine = (\<lambda>options parent selected.
                      (torusLevel\<lparr>depth := Suc (depth parent)\<rparr>, (options, selected))),
      childVertexIncomplete = (\<lambda>r v. False), crease_INFINITE = 10\<rparr>"

text \<open>The selector of the first iteration on a base level, after \<^verbatim>\<open>beginSelection\<close>.\<close>

definition freshSelector :: "VtrLevel \<Rightarrow> (RefineOptions \<times> nat set) VtrSparseSelector" where
  "freshSelector level = beginSelection True (setPreviousRefinement None (newSelector level))"

text \<open>Tables whose base level has been filled by the factory.\<close>

definition tablesOf :: "VtrLevel \<Rightarrow> (RefineOptions \<times> nat set) FarRefineTables" where
  "tablesOf level = (newFarRefineTables TYPE_CATMARK defaultSdcOptions)\<lparr>levels := [level]\<rparr>"

section \<open>Properties of the masks\<close>

subsection \<open>The loops over weight arrays in closed form\<close>

lemma fold_FaceWeight:
  "fold (\<lambda>i m. m\<lparr>FaceWeight := (FaceWeight m)(i := g i (FaceWeight m i))\<rparr>) [0..<n] (d::Mask)
     = d\<lparr>FaceWeight := (\<lambda>i. if i < n then g i (FaceWeight d i) else FaceWeight d i)\<rparr>"
proof (induction n)
  case 0
  show ?case by simp
next
  case (Suc n)
  let ?F = "\<lambda>i (m::Mask). m\<lparr>FaceWeight := (FaceWeight m)(i := g i (FaceWeight m i))\<rparr>"
  have "fold ?F [0..<Suc n] d = ?F n (fold ?F [0..<n] d)"
    by simp
  also have "\<dots> = ?F n (d\<lparr>FaceWeight := (\<lambda>i. if i < n then g i (FaceWeight d i) else FaceWeight d i)\<rparr>)"
    by (simp only: Suc.IH)
  also have "\<dots> = d\<lparr>FaceWeight := (\<lambda>i. if i < Suc n then g i (FaceWeight d i) else FaceWeight d i)\<rparr>"
    by (auto simp: fun_eq_iff)
  finally show ?case .
qed

lemma fold_EdgeWeight:
  "fold (\<lambda>i m. m\<lparr>EdgeWeight := (EdgeWeight m)(i := g i (EdgeWeight m i))\<rparr>) [0..<n] (d::Mask)
     = d\<lparr>EdgeWeight := (\<lambda>i. if i < n then g i (EdgeWeight d i) else EdgeWeight d i)\<rparr>"
proof (induction n)
  case 0
  show ?case by simp
next
  case (Suc n)
  let ?F = "\<lambda>i (m::Mask). m\<lparr>EdgeWeight := (EdgeWeight m)(i := g i (EdgeWeight m i))\<rparr>"
  have "fold ?F [0..<Suc n] d = ?F n (fold ?F [0..<n] d)"
    by simp
  also have "\<dots> = ?F n (d\<lparr>EdgeWeight := (\<lambda>i. if i < n then g i (EdgeWeight d i) else EdgeWeight d i)\<rparr>)"
    by (simp only: Suc.IH)
  also have "\<dots> = d\<lparr>EdgeWeight := (\<lambda>i. if i < Suc n then g i (EdgeWeight d i) else EdgeWeight d i)\<rparr>"
    by (auto simp: fun_eq_iff)
  finally show ?case .
qed

lemma attenuateFaceWeights_eq:
  "attenuateFaceWeights c m =
     m\<lparr>FaceWeight := (\<lambda>i. if i < FaceWeightCount m then FaceWeight m i * c else FaceWeight m i)\<rparr>"
  unfolding attenuateFaceWeights_def by (rule fold_FaceWeight)

lemma creaseToSmooth_eq:
  "creaseToSmooth S edge msk =
     (assignSmoothMaskForEdge S edge msk)
       \<lparr>VertexWeight := (VertexWeight (assignSmoothMaskForEdge S edge msk))
            (0 := edge_GetSharpness edge * (1/2)
                  + (1 - edge_GetSharpness edge) * VertexWeight (assignSmoothMaskForEdge S edge msk) 0,
             1 := edge_GetSharpness edge * (1/2)
                  + (1 - edge_GetSharpness edge) * VertexWeight (assignSmoothMaskForEdge S edge msk) 1),
        FaceWeight := (\<lambda>i. if i < FaceWeightCount (assignSmoothMaskForEdge S edge msk)
                            then FaceWeight (assignSmoothMaskForEdge S edge msk) i
                                   * (1 - edge_GetSharpness edge)
                            else FaceWeight (assignSmoothMaskForEdge S edge msk) i)\<rparr>"
  by (simp add: creaseToSmooth_def attenuateFaceWeights_eq Let_def cong: if_cong)

lemma CombineVertexVertexMasks_eq:
  "CombineVertexVertexMasks this c p dst =
     dst\<lparr>VertexWeight := (VertexWeight dst)(0 := p * VertexWeight dst 0 + c * VertexWeight this 0),
         EdgeWeightCount := (if EdgeWeightCount this \<noteq> 0 \<and> EdgeWeightCount dst = 0
                             then EdgeWeightCount this else EdgeWeightCount dst),
         EdgeWeight := (\<lambda>i. if i < EdgeWeightCount this
                             then (if EdgeWeightCount dst = 0 then c * EdgeWeight this i
                                   else p * EdgeWeight dst i + c * EdgeWeight this i)
                             else EdgeWeight dst i),
         FaceWeightCount := (if FaceWeightCount this \<noteq> 0 \<and> FaceWeightCount dst = 0
                             then FaceWeightCount this else FaceWeightCount dst),
         FaceWeight := (\<lambda>i. if i < FaceWeightCount this
                             then (if FaceWeightCount dst = 0 then c * FaceWeight this i
                                   else p * FaceWeight dst i + c * FaceWeight this i)
                             else FaceWeight dst i)\<rparr>"
  unfolding CombineVertexVertexMasks_def Let_def
  by (simp add: fold_EdgeWeight[where g="\<lambda>i x. c * EdgeWeight this i"]
                fold_EdgeWeight[where g="\<lambda>i x. p * x + c * EdgeWeight this i"]
                fold_FaceWeight[where g="\<lambda>i x. c * FaceWeight this i"]
                fold_FaceWeight[where g="\<lambda>i x. p * x + c * FaceWeight this i"] cong: if_cong)


subsection \<open>Edge-vertex masks\<close>

lemmas mask_simps = assignCreaseMaskForEdge_def assignCornerMaskForVertex_def
  vertWeights_def edgeWeights_def faceWeights_def

lemma upt2: "[0..<2] = [0, Suc 0]"
  by (simp add: upt_rec)

text \<open>
  Claim C5. With both rules unspecified (\<^verbatim>\<open>RULE_UNKNOWN\<close>), \<^verbatim>\<open>ComputeEdgeVertexMask\<close>
  assigns the smooth mask whenever the parent edge sharpness is at most 0, and assigns the
  crease mask, with vertex weights \<open>[1/2, 1/2]\<close>, no edge weights and no face weights,
  whenever the parent edge sharpness is at least 1.
\<close>

theorem edge_mask_unspecified_rules:
  "(edge_GetSharpness edge \<le> 0 \<longrightarrow>
      ComputeEdgeVertexMask S edge msk RULE_UNKNOWN RULE_UNKNOWN = assignSmoothMaskForEdge S edge msk)
   \<and> (edge_GetSharpness edge \<ge> 1 \<longrightarrow>
      ComputeEdgeVertexMask S edge msk RULE_UNKNOWN RULE_UNKNOWN = assignCreaseMaskForEdge edge msk
      \<and> vertWeights (ComputeEdgeVertexMask S edge msk RULE_UNKNOWN RULE_UNKNOWN) = [1/2, 1/2]
      \<and> edgeWeights (ComputeEdgeVertexMask S edge msk RULE_UNKNOWN RULE_UNKNOWN) = []
      \<and> faceWeights (ComputeEdgeVertexMask S edge msk RULE_UNKNOWN RULE_UNKNOWN) = [])"
proof (intro conjI impI)
  assume "edge_GetSharpness edge \<le> 0"
  then show "ComputeEdgeVertexMask S edge msk RULE_UNKNOWN RULE_UNKNOWN = assignSmoothMaskForEdge S edge msk"
    by (simp add: ComputeEdgeVertexMask_def)
next
  assume sharp: "edge_GetSharpness edge \<ge> 1"
  then have r: "ComputeEdgeVertexMask S edge msk RULE_UNKNOWN RULE_UNKNOWN = assignCreaseMaskForEdge edge msk"
    by (simp add: ComputeEdgeVertexMask_def childIsCrease_def)
  show "ComputeEdgeVertexMask S edge msk RULE_UNKNOWN RULE_UNKNOWN = assignCreaseMaskForEdge edge msk"
    by (rule r)
  show "vertWeights (ComputeEdgeVertexMask S edge msk RULE_UNKNOWN RULE_UNKNOWN) = [1/2, 1/2]"
    by (simp add: r mask_simps upt2)
  show "edgeWeights (ComputeEdgeVertexMask S edge msk RULE_UNKNOWN RULE_UNKNOWN) = []"
    by (simp add: r mask_simps)
  show "faceWeights (ComputeEdgeVertexMask S edge msk RULE_UNKNOWN RULE_UNKNOWN) = []"
    by (simp add: r mask_simps)
qed

theorem edge_mask_unspecified_rules_witness:
  "edge_GetSharpness smoothEdge \<le> 0
   \<and> ComputeEdgeVertexMask catmarkUniform smoothEdge zeroMask RULE_UNKNOWN RULE_UNKNOWN
       = catmarkSmoothMaskForEdge smoothEdge zeroMask
   \<and> edge_GetSharpness sharpEdge \<ge> 1
   \<and> vertWeights (ComputeEdgeVertexMask catmarkUniform sharpEdge zeroMask RULE_UNKNOWN RULE_UNKNOWN)
       = [1/2, 1/2]
   \<and> edgeWeights (ComputeEdgeVertexMask catmarkUniform sharpEdge zeroMask RULE_UNKNOWN RULE_UNKNOWN) = []
   \<and> faceWeights (ComputeEdgeVertexMask catmarkUniform sharpEdge zeroMask RULE_UNKNOWN RULE_UNKNOWN) = []"
proof -
  have a: "edge_GetSharpness smoothEdge \<le> 0" by (simp add: smoothEdge_def)
  have b: "edge_GetSharpness sharpEdge \<ge> 1" by (simp add: sharpEdge_def)
  have c: "assignSmoothMaskForEdge catmarkUniform = catmarkSmoothMaskForEdge"
    by (simp add: catmarkUniform_def)
  note t1 = edge_mask_unspecified_rules [of smoothEdge catmarkUniform zeroMask,
      THEN conjunct1, rule_format, OF a]
  note t2 = edge_mask_unspecified_rules [of sharpEdge catmarkUniform zeroMask,
      THEN conjunct2, rule_format, OF b]
  show ?thesis
    using a b t1 [unfolded c] t2 by blast
qed

text \<open>
  Claim C10. With both rules unspecified, a creasing method that is not uniform (Chaikin) and
  a parent edge sharpness strictly between 0 and 1, the child is classified as a crease, and
  the crease mask \<open>[1/2, 1/2]\<close> assigned, if and only if both child edge sharpness values
  are strictly positive; otherwise the crease-to-smooth blend is computed.
\<close>

theorem chaikin_child_crease:
  assumes "\<not> IsUniform (crease_of_options S)"
    and "0 < edge_GetSharpness edge" and "edge_GetSharpness edge < 1"
  shows "(childIsCrease S edge RULE_UNKNOWN \<longleftrightarrow>
            fst (edge_GetChildSharpnesses edge (crease_of_options S)) > 0
            \<and> snd (edge_GetChildSharpnesses edge (crease_of_options S)) > 0)
       \<and> ComputeEdgeVertexMask S edge msk RULE_UNKNOWN RULE_UNKNOWN =
           (if fst (edge_GetChildSharpnesses edge (crease_of_options S)) > 0
               \<and> snd (edge_GetChildSharpnesses edge (crease_of_options S)) > 0
            then assignCreaseMaskForEdge edge msk
            else creaseToSmooth S edge msk)
       \<and> vertWeights (assignCreaseMaskForEdge edge msk) = [1/2, 1/2]"
proof (intro conjI)
  show c: "childIsCrease S edge RULE_UNKNOWN \<longleftrightarrow>
            fst (edge_GetChildSharpnesses edge (crease_of_options S)) > 0
            \<and> snd (edge_GetChildSharpnesses edge (crease_of_options S)) > 0"
    using assms by (simp add: childIsCrease_def Let_def)
  show "ComputeEdgeVertexMask S edge msk RULE_UNKNOWN RULE_UNKNOWN =
           (if fst (edge_GetChildSharpnesses edge (crease_of_options S)) > 0
               \<and> snd (edge_GetChildSharpnesses edge (crease_of_options S)) > 0
            then assignCreaseMaskForEdge edge msk
            else creaseToSmooth S edge msk)"
    using assms(2) by (simp add: ComputeEdgeVertexMask_def c)
  show "vertWeights (assignCreaseMaskForEdge edge msk) = [1/2, 1/2]"
    by (simp add: mask_simps upt2)
qed

theorem chaikin_child_crease_witness:
  "\<not> IsUniform (crease_of_options catmarkChaikin)
   \<and> 0 < edge_GetSharpness semiSharpEdge \<and> edge_GetSharpness semiSharpEdge < 1
   \<and> childIsCrease catmarkChaikin semiSharpEdge RULE_UNKNOWN
   \<and> vertWeights (ComputeEdgeVertexMask catmarkChaikin semiSharpEdge zeroMask RULE_UNKNOWN RULE_UNKNOWN)
       = [1/2, 1/2]
   \<and> 0 < edge_GetSharpness decayingEdge \<and> edge_GetSharpness decayingEdge < 1
   \<and> \<not> childIsCrease catmarkChaikin decayingEdge RULE_UNKNOWN
   \<and> ComputeEdgeVertexMask catmarkChaikin decayingEdge zeroMask RULE_UNKNOWN RULE_UNKNOWN
       = creaseToSmooth catmarkChaikin decayingEdge zeroMask
   \<and> vertWeights (creaseToSmooth catmarkChaikin decayingEdge zeroMask) = [7/16, 7/16]
   \<and> faceWeights (creaseToSmooth catmarkChaikin decayingEdge zeroMask) = [1/32, 1/32, 1/32, 1/32]"
proof -
  have u: "\<not> IsUniform (crease_of_options catmarkChaikin)"
    by (simp add: catmarkChaikin_def chaikinCrease_def)
  have s1: "0 < edge_GetSharpness semiSharpEdge" "edge_GetSharpness semiSharpEdge < 1"
    by (simp_all add: semiSharpEdge_def)
  have s2: "0 < edge_GetSharpness decayingEdge" "edge_GetSharpness decayingEdge < 1"
    by (simp_all add: decayingEdge_def)
  have c1: "edge_GetChildSharpnesses semiSharpEdge (crease_of_options catmarkChaikin) = (1/4, 1/8)"
    by (simp add: semiSharpEdge_def)
  have c2: "edge_GetChildSharpnesses decayingEdge (crease_of_options catmarkChaikin) = (1/4, 0)"
    by (simp add: decayingEdge_def)
  have v: "vertWeights (creaseToSmooth catmarkChaikin decayingEdge zeroMask) = [7/16, 7/16]"
    by (simp add: creaseToSmooth_eq catmarkChaikin_def catmarkSmoothMaskForEdge_def
        decayingEdge_def zeroMask_def vertWeights_def upt2)
  have f: "faceWeights (creaseToSmooth catmarkChaikin decayingEdge zeroMask) = [1/32, 1/32, 1/32, 1/32]"
    by (simp add: creaseToSmooth_eq catmarkChaikin_def catmarkSmoothMaskForEdge_def
        decayingEdge_def zeroMask_def faceWeights_def upt_rec)
  show ?thesis
    using u s1 s2 v f
      chaikin_child_crease [OF u s1, of zeroMask]
      chaikin_child_crease [OF u s2, of zeroMask]
    by (simp add: c1 c2)
qed


text \<open>
  With the parent rule Crease and the child rule Smooth both specified, the mask is the
  crease-to-smooth blend whatever the sharpness is; the blend agrees with the one of the
  spec, whose weight is clamped, exactly when the sharpness lies in \<open>[0, 1]\<close>.
\<close>

lemma explicit_smooth_child:
  "ComputeEdgeVertexMask S edge msk RULE_CREASE RULE_SMOOTH = creaseToSmooth S edge msk"
  by (simp add: ComputeEdgeVertexMask_def)

lemma creaseToSmooth_clamped:
  assumes "0 \<le> edge_GetSharpness edge" and "edge_GetSharpness edge \<le> 1"
  shows "creaseToSmooth S edge msk = clampedCreaseToSmooth S edge msk"
proof -
  have "min 1 (max 0 (edge_GetSharpness edge)) = edge_GetSharpness edge"
    using assms by simp
  then show ?thesis
    by (simp add: creaseToSmooth_eq clampedCreaseToSmooth_def Let_def)
qed

lemma upt4: "[0..<4] = [0, 1, 2, 3]"
  by (simp add: upt_rec)

text \<open>
  Claim C4. In the crease-to-smooth case the blend weight is said to be the parent edge
  sharpness clamped to \<open>[0, 1]\<close>, also for a sharpness above 1 when the child rule is given
  as Smooth. At the parent sharpness 5/4, whose Chaikin child values are both 0, with the
  rules Crease and Smooth specified, the source blends with the weight 5/4: the vertex
  weights are \<open>17/32\<close> and the face weights negative, where the clamped weight 1 gives the
  crease mask \<open>[1/2, 1/2]\<close> with face weights 0, which is also what the source computes for
  the same edge when the rules are left unspecified.
\<close>

theorem crease_to_smooth_not_clamped:
  "edge_GetChildSharpnesses overSharpEdge chaikinCrease = (0, 0)
   \<and> vertWeights (ComputeEdgeVertexMask catmarkChaikin overSharpEdge zeroMask RULE_CREASE RULE_SMOOTH)
       = [17/32, 17/32]
   \<and> faceWeights (ComputeEdgeVertexMask catmarkChaikin overSharpEdge zeroMask RULE_CREASE RULE_SMOOTH)
       = [- (1/64), - (1/64), - (1/64), - (1/64)]
   \<and> vertWeights (clampedCreaseToSmooth catmarkChaikin overSharpEdge zeroMask) = [1/2, 1/2]
   \<and> faceWeights (clampedCreaseToSmooth catmarkChaikin overSharpEdge zeroMask) = [0, 0, 0, 0]
   \<and> vertWeights (ComputeEdgeVertexMask catmarkChaikin overSharpEdge zeroMask RULE_UNKNOWN RULE_UNKNOWN)
       = [1/2, 1/2]"
proof (intro conjI)
  show "edge_GetChildSharpnesses overSharpEdge chaikinCrease = (0, 0)"
    by (simp add: overSharpEdge_def)
  show "vertWeights (ComputeEdgeVertexMask catmarkChaikin overSharpEdge zeroMask RULE_CREASE RULE_SMOOTH)
       = [17/32, 17/32]"
    by (simp add: explicit_smooth_child creaseToSmooth_eq catmarkChaikin_def
        catmarkSmoothMaskForEdge_def overSharpEdge_def zeroMask_def vertWeights_def upt2)
  show "faceWeights (ComputeEdgeVertexMask catmarkChaikin overSharpEdge zeroMask RULE_CREASE RULE_SMOOTH)
       = [- (1/64), - (1/64), - (1/64), - (1/64)]"
    by (simp add: explicit_smooth_child creaseToSmooth_eq catmarkChaikin_def
        catmarkSmoothMaskForEdge_def overSharpEdge_def zeroMask_def faceWeights_def upt4)
  show "vertWeights (clampedCreaseToSmooth catmarkChaikin overSharpEdge zeroMask) = [1/2, 1/2]"
    by (simp add: clampedCreaseToSmooth_def Let_def catmarkChaikin_def
        catmarkSmoothMaskForEdge_def overSharpEdge_def zeroMask_def vertWeights_def upt2)
  show "faceWeights (clampedCreaseToSmooth catmarkChaikin overSharpEdge zeroMask) = [0, 0, 0, 0]"
    by (simp add: clampedCreaseToSmooth_def Let_def catmarkChaikin_def
        catmarkSmoothMaskForEdge_def overSharpEdge_def zeroMask_def faceWeights_def upt4)
  show "vertWeights (ComputeEdgeVertexMask catmarkChaikin overSharpEdge zeroMask RULE_UNKNOWN RULE_UNKNOWN)
       = [1/2, 1/2]"
    by (simp add: ComputeEdgeVertexMask_def childIsCrease_def overSharpEdge_def
        assignCreaseMaskForEdge_def vertWeights_def upt2)
qed

subsection \<open>Vertex-vertex masks\<close>

lemma vvTransition_parent:
  assumes "vvTransition S vertex pRule cRule"
  shows "pRule \<noteq> RULE_SMOOTH" and "pRule \<noteq> RULE_DART"
  using assms by (auto simp: vvTransition_def vvParentRule_def split: if_splits)

lemma ComputeVertexVertexMask_transition:
  assumes "vvTransition S vertex pRule cRule"
  shows "ComputeVertexVertexMask S cMask0 vertex msk pRule cRule =
           CombineVertexVertexMasks (vvChildMask S cMask0 vertex pRule cRule)
             (1 - vvFractionalWeight S vertex pRule cRule) (vvFractionalWeight S vertex pRule cRule)
             (vvParentMask S vertex msk pRule cRule)"
  using assms vvTransition_parent [OF assms]
  by (simp add: ComputeVertexVertexMask_def vvTransition_def Let_def)

text \<open>
  Claim C1, as amended. Whenever the child rule differs from the parent rule,
  \<^verbatim>\<open>ComputeVertexVertexMask\<close> produces the final mask
  \<open>pWeight * parentMask + cWeight * childMask\<close> with \<open>pWeight = w\<close> the fractional weight and
  \<open>cWeight = 1 - w\<close> (so that \<open>w = 1\<close> yields the parent-rule mask): for the vertex weight,
  and for the edge and face weights at every index of the child mask, where a parent mask
  without edge (face) weights counts as zero.
\<close>

theorem vertex_mask_blend:
  assumes "vvTransition S vertex pRule cRule"
  shows
    "let P = vvParentMask S vertex msk pRule cRule;
         C = vvChildMask S cMask0 vertex pRule cRule;
         w = vvFractionalWeight S vertex pRule cRule;
         M = ComputeVertexVertexMask S cMask0 vertex msk pRule cRule
     in M = CombineVertexVertexMasks C (1 - w) w P
        \<and> VertexWeight M 0 = w * VertexWeight P 0 + (1 - w) * VertexWeight C 0
        \<and> (\<forall>i < EdgeWeightCount C.
              EdgeWeight M i = w * (if EdgeWeightCount P = 0 then 0 else EdgeWeight P i)
                               + (1 - w) * EdgeWeight C i)
        \<and> (\<forall>j < FaceWeightCount C.
              FaceWeight M j = w * (if FaceWeightCount P = 0 then 0 else FaceWeight P j)
                               + (1 - w) * FaceWeight C j)
        \<and> VertexWeightCount M = VertexWeightCount P
        \<and> EdgeWeightCount M = (if EdgeWeightCount P = 0 then EdgeWeightCount C else EdgeWeightCount P)
        \<and> FaceWeightCount M = (if FaceWeightCount P = 0 then FaceWeightCount C else FaceWeightCount P)
        \<and> (w = 1 \<longrightarrow> VertexWeight M 0 = VertexWeight P 0)"
  unfolding Let_def ComputeVertexVertexMask_transition [OF assms]
  by (simp add: CombineVertexVertexMasks_eq)


lemmas vv_simps = vvTransition_def vvParentRule_def vvChildRule_def vvChildRule0_def
  requireParentSharpness_def pVertexSharpness_def pEdgeSharpness_def vvParentMask_def
  vvChildMask_def vvFractionalWeight_def

lemmas catmark_simps = catmarkUniform_def uniformCrease_def determineVertexRule_def
  fractionalWeightAtSharpVertex_def catmarkSmoothMaskForVertex_def assignCornerMaskForVertex_def
  zeroMask_def

lemma cornerVertex_transition:
  "vvTransition catmarkUniform cornerVertex RULE_UNKNOWN RULE_UNKNOWN"
  by (simp add: vv_simps catmark_simps cornerVertex_def)

lemma semiSharpVertex_transition:
  "vvTransition catmarkUniform semiSharpVertex RULE_CORNER RULE_SMOOTH"
  by (simp add: vv_simps)

theorem vertex_mask_blend_witness:
  "vvTransition catmarkUniform cornerVertex RULE_UNKNOWN RULE_UNKNOWN
   \<and> vertWeights (ComputeVertexVertexMask catmarkUniform zeroMask cornerVertex zeroMask
         RULE_UNKNOWN RULE_UNKNOWN) = [1]
   \<and> edgeWeights (ComputeVertexVertexMask catmarkUniform zeroMask cornerVertex zeroMask
         RULE_UNKNOWN RULE_UNKNOWN) = [0, 0, 0, 0]
   \<and> faceWeights (ComputeVertexVertexMask catmarkUniform zeroMask cornerVertex zeroMask
         RULE_UNKNOWN RULE_UNKNOWN) = [0, 0, 0, 0]
   \<and> vvTransition catmarkUniform semiSharpVertex RULE_CORNER RULE_SMOOTH
   \<and> vertWeights (ComputeVertexVertexMask catmarkUniform zeroMask semiSharpVertex zeroMask
         RULE_CORNER RULE_SMOOTH) = [7/8]
   \<and> edgeWeights (ComputeVertexVertexMask catmarkUniform zeroMask semiSharpVertex zeroMask
         RULE_CORNER RULE_SMOOTH) = [1/64, 1/64, 1/64, 1/64]
   \<and> faceWeights (ComputeVertexVertexMask catmarkUniform zeroMask semiSharpVertex zeroMask
         RULE_CORNER RULE_SMOOTH) = [1/64, 1/64, 1/64, 1/64]"
proof -
  note b1 = vertex_mask_blend [OF cornerVertex_transition, of zeroMask zeroMask,
      unfolded Let_def, THEN conjunct1]
  note b2 = vertex_mask_blend [OF semiSharpVertex_transition, of zeroMask zeroMask,
      unfolded Let_def, THEN conjunct1]
  have m1: "ComputeVertexVertexMask catmarkUniform zeroMask cornerVertex zeroMask
              RULE_UNKNOWN RULE_UNKNOWN =
            \<lparr>VertexWeightCount = 1, EdgeWeightCount = 4, FaceWeightCount = 4,
             VertexWeight = (\<lambda>i. 0)(0 := 1), EdgeWeight = (\<lambda>i. 0), FaceWeight = (\<lambda>i. 0)\<rparr>"
    unfolding b1
    by (simp add: CombineVertexVertexMasks_eq vv_simps catmark_simps cornerVertex_def fun_eq_iff)
  have m2: "ComputeVertexVertexMask catmarkUniform zeroMask semiSharpVertex zeroMask
              RULE_CORNER RULE_SMOOTH =
            \<lparr>VertexWeightCount = 1, EdgeWeightCount = 4, FaceWeightCount = 4,
             VertexWeight = (\<lambda>i. 0)(0 := 7/8),
             EdgeWeight = (\<lambda>i. if i < 4 then 1/64 else 0),
             FaceWeight = (\<lambda>i. if i < 4 then 1/64 else 0)\<rparr>"
    unfolding b2
    by (simp add: CombineVertexVertexMasks_eq vv_simps catmark_simps semiSharpVertex_def fun_eq_iff)
  show ?thesis
    unfolding m1 m2
    by (simp add: cornerVertex_transition semiSharpVertex_transition
        vertWeights_def edgeWeights_def faceWeights_def upt4)
qed

text \<open>
  Claim C1 as stated, with the coefficients the other way round
  (\<open>cWeight * parentMask + pWeight * childMask\<close>), fails: for a Corner vertex of sharpness 1
  whose child is Smooth the fractional weight is 1, the parent vertex weight 1 and the child
  vertex weight 1/2; the source returns the vertex weight 1, the stated formula gives 1/2.
\<close>

theorem vertex_mask_blend_counterexample:
  "vvTransition catmarkUniform cornerVertex RULE_UNKNOWN RULE_UNKNOWN
   \<and> vvFractionalWeight catmarkUniform cornerVertex RULE_UNKNOWN RULE_UNKNOWN = 1
   \<and> VertexWeight (vvParentMask catmarkUniform cornerVertex zeroMask RULE_UNKNOWN RULE_UNKNOWN) 0 = 1
   \<and> VertexWeight (vvChildMask catmarkUniform zeroMask cornerVertex RULE_UNKNOWN RULE_UNKNOWN) 0 = 1/2
   \<and> VertexWeight (ComputeVertexVertexMask catmarkUniform zeroMask cornerVertex zeroMask
        RULE_UNKNOWN RULE_UNKNOWN) 0 = 1
   \<and> VertexWeight (ComputeVertexVertexMask catmarkUniform zeroMask cornerVertex zeroMask
        RULE_UNKNOWN RULE_UNKNOWN) 0
      \<noteq> (1 - vvFractionalWeight catmarkUniform cornerVertex RULE_UNKNOWN RULE_UNKNOWN)
           * VertexWeight (vvParentMask catmarkUniform cornerVertex zeroMask RULE_UNKNOWN RULE_UNKNOWN) 0
         + vvFractionalWeight catmarkUniform cornerVertex RULE_UNKNOWN RULE_UNKNOWN
           * VertexWeight (vvChildMask catmarkUniform zeroMask cornerVertex RULE_UNKNOWN RULE_UNKNOWN) 0"
proof -
  have w: "vvFractionalWeight catmarkUniform cornerVertex RULE_UNKNOWN RULE_UNKNOWN = 1"
    by (simp add: vv_simps catmark_simps cornerVertex_def)
  have p: "VertexWeight (vvParentMask catmarkUniform cornerVertex zeroMask RULE_UNKNOWN RULE_UNKNOWN) 0 = 1"
    by (simp add: vv_simps catmark_simps cornerVertex_def)
  have c: "VertexWeight (vvChildMask catmarkUniform zeroMask cornerVertex RULE_UNKNOWN RULE_UNKNOWN) 0 = 1/2"
    by (simp add: vv_simps catmark_simps cornerVertex_def)
  have m: "VertexWeight (ComputeVertexVertexMask catmarkUniform zeroMask cornerVertex zeroMask
        RULE_UNKNOWN RULE_UNKNOWN) 0 = 1"
    unfolding ComputeVertexVertexMask_transition [OF cornerVertex_transition]
    by (simp add: CombineVertexVertexMasks_eq w p)
  show ?thesis
    unfolding w p c m by (simp add: cornerVertex_transition)
qed

section \<open>Properties of the refinement tables\<close>

subsection \<open>The shape of the two vectors\<close>

lemma length_resize: "length (resize n d xs) = n"
  by (simp add: resize_def)

lemma resize_nth: "i < n \<Longrightarrow> i < length xs \<Longrightarrow> resize n d xs ! i = xs ! i"
  by (simp add: resize_def nth_append)


lemma refineAsserts_None:
  "refineAsserts t = None \<longleftrightarrow>
     levels t \<noteq> [] \<and> 0 < vertCount (levels t ! 0) \<and> subdivType t = TYPE_CATMARK"
  by (auto simp: refineAsserts_def)

lemma allocate_Inr:
  "allocate V u k t = Inr t0 \<longleftrightarrow>
     0 \<le> k \<and> k < INT_MAX
     \<and> t0 = t\<lparr>isUniform := u, maxLevel := k,
              levels := resize (nat k + 1) emptyLevel (levels t),
              refinements := resize (nat k) (emptyRefinement V) (refinements t)\<rparr>"
  by (auto simp: allocate_def stackSizes_def nat_add_distrib)

lemma allocate_shape:
  assumes "allocate V u k t = Inr t0"
  shows "length (levels t0) = nat k + 1" and "length (refinements t0) = nat k"
    and "levels t \<noteq> [] \<Longrightarrow> levels t0 ! 0 = levels t ! 0"
    and "subdivType t0 = subdivType t" and "subdivOptions t0 = subdivOptions t"
    and "isUniform t0 = u" and "maxLevel t0 = k"
  using assms by (simp_all add: allocate_Inr length_resize resize_nth)

lemma uniformStep_shape:
  "length (levels (snd (uniformStep V ft n i s))) = length (levels (snd s))"
  "length (refinements (snd (uniformStep V ft n i s))) = length (refinements (snd s))"
  "0 < i \<Longrightarrow> levels (snd (uniformStep V ft n i s)) ! 0 = levels (snd s) ! 0"
  "subdivType (snd (uniformStep V ft n i s)) = subdivType (snd s)"
  "subdivOptions (snd (uniformStep V ft n i s)) = subdivOptions (snd s)"
  "isUniform (snd (uniformStep V ft n i s)) = isUniform (snd s)"
  "maxLevel (snd (uniformStep V ft n i s)) = maxLevel (snd s)"
  by (simp_all add: uniformStep_def Let_def split: prod.splits)

lemma fold_uniformStep_shape:
  assumes "\<forall>i\<in>set is. 0 < i"
  shows "length (levels (snd (fold (uniformStep V ft n) is s))) = length (levels (snd s))"
    and "length (refinements (snd (fold (uniformStep V ft n) is s))) = length (refinements (snd s))"
    and "levels (snd (fold (uniformStep V ft n) is s)) ! 0 = levels (snd s) ! 0"
    and "subdivType (snd (fold (uniformStep V ft n) is s)) = subdivType (snd s)"
    and "subdivOptions (snd (fold (uniformStep V ft n) is s)) = subdivOptions (snd s)"
    and "isUniform (snd (fold (uniformStep V ft n) is s)) = isUniform (snd s)"
    and "maxLevel (snd (fold (uniformStep V ft n) is s)) = maxLevel (snd s)"
  using assms by (induction "is" arbitrary: s; simp add: uniformStep_shape)+

lemma RefineUniform_Inr:
  assumes "RefineUniform V k ft cm t = Inr t'"
  obtains t0 where "refineAsserts t = None" and "allocate V True k t = Inr t0"
    and "t' = snd (fold (uniformStep V ft (nat k)) [1..<nat k + 1]
                 ((defaultOptions V)\<lparr>opt_sparse := False, opt_computeMasks := cm\<rparr>, t0))"
  using assms by (auto simp: RefineUniform_def Let_def split: option.splits sum.splits)

lemma RefineUniform_shape:
  assumes "RefineUniform V k ft cm t = Inr t'"
  shows "length (levels t') = nat k + 1" and "length (refinements t') = nat k"
    and "levels t' ! 0 = levels t ! 0"
proof -
  from assms obtain t0 where pre: "refineAsserts t = None"
    and al: "allocate V True k t = Inr t0"
    and t': "t' = snd (fold (uniformStep V ft (nat k)) [1..<nat k + 1]
                 ((defaultOptions V)\<lparr>opt_sparse := False, opt_computeMasks := cm\<rparr>, t0))"
    by (rule RefineUniform_Inr)
  from pre have ne: "levels t \<noteq> []"
    by (simp add: refineAsserts_None)
  have pos: "\<forall>i\<in>set [1..<nat k + 1]. 0 < i"
    by auto
  show "length (levels t') = nat k + 1"
    unfolding t' fold_uniformStep_shape [OF pos] by (simp add: allocate_shape [OF al])
  show "length (refinements t') = nat k"
    unfolding t' fold_uniformStep_shape [OF pos] by (simp add: allocate_shape [OF al])
  show "levels t' ! 0 = levels t ! 0"
    unfolding t' fold_uniformStep_shape [OF pos] using ne by (simp add: allocate_shape [OF al])
qed

lemma adaptiveRefineStep_shape:
  "length (levels (adaptiveRefineStep V ro t i)) = length (levels t)"
  "length (refinements (adaptiveRefineStep V ro t i)) = length (refinements t)"
  "0 < i \<Longrightarrow> levels (adaptiveRefineStep V ro t i) ! 0 = levels t ! 0"
  by (simp_all add: adaptiveRefineStep_def Let_def split: prod.splits)

lemma adaptiveTrim_shape:
  assumes "0 < i" and "i \<le> length (levels t)" and "levels t \<noteq> []"
  shows "length (levels (adaptiveTrim V t i)) = i"
    and "length (refinements (adaptiveTrim V t i)) = i - 1"
    and "levels (adaptiveTrim V t i) ! 0 = levels t ! 0"
    and "maxLevel (adaptiveTrim V t i) = int i - 1"
  using assms by (simp_all add: adaptiveTrim_def Let_def length_resize resize_nth)

lemma adaptiveLoop_unfold:
  "adaptiveLoop V ro n i t =
     (if i \<le> n then
        (if \<not> isSelectionEmpty (adaptiveSelector V t i)
         then adaptiveLoop V (ro\<lparr>opt_faceTopologyOnly := False\<rparr>) n (i + 1)
                (adaptiveRefineStep V (ro\<lparr>opt_faceTopologyOnly := False\<rparr>) t i)
         else adaptiveTrim V t i)
      else t)"
  by (subst adaptiveLoop.simps) (simp add: Let_def)

lemma adaptiveLoop_shape:
  assumes "0 < i" and "length (levels t) = n + 1" and "length (refinements t) = n"
  shows "0 < length (levels (adaptiveLoop V ro n i t))
       \<and> length (refinements (adaptiveLoop V ro n i t)) + 1 = length (levels (adaptiveLoop V ro n i t))
       \<and> levels (adaptiveLoop V ro n i t) ! 0 = levels t ! 0"
  using assms
proof (induction V ro n i t rule: adaptiveLoop.induct)
  case (1 V ro n i t)
  show ?case
  proof (cases "i \<le> n")
    case False
    then show ?thesis
      using "1.prems" by (simp add: adaptiveLoop_unfold [of V ro n i t])
  next
    case in_range: True
    show ?thesis
    proof (cases "isSelectionEmpty (adaptiveSelector V t i)")
      case True
      have ne: "levels t \<noteq> []" using "1.prems" by auto
      have le: "i \<le> length (levels t)" using in_range "1.prems" by simp
      show ?thesis
        using True in_range "1.prems"(1) adaptiveTrim_shape [OF "1.prems"(1) le ne, of V]
        by (simp add: adaptiveLoop_unfold [of V ro n i t])
    next
      case False
      let ?ro = "ro\<lparr>opt_faceTopologyOnly := False\<rparr>"
      have ih: "0 < length (levels (adaptiveLoop V ?ro n (i + 1) (adaptiveRefineStep V ?ro t i)))
         \<and> length (refinements (adaptiveLoop V ?ro n (i + 1) (adaptiveRefineStep V ?ro t i))) + 1
             = length (levels (adaptiveLoop V ?ro n (i + 1) (adaptiveRefineStep V ?ro t i)))
         \<and> levels (adaptiveLoop V ?ro n (i + 1) (adaptiveRefineStep V ?ro t i)) ! 0
             = levels (adaptiveRefineStep V ?ro t i) ! 0"
        using "1.IH" [OF in_range refl False] "1.prems"
        by (simp add: adaptiveRefineStep_shape)
      show ?thesis
        using False in_range ih "1.prems"(1)
        by (simp add: adaptiveLoop_unfold [of V ro n i t] adaptiveRefineStep_shape)
    qed
  qed
qed

lemma RefineAdaptive_Inr:
  assumes "RefineAdaptive V k ft cm t = Inr t'"
  obtains t0 where "refineAsserts t = None" and "allocate V False k t = Inr t0"
    and "t' = adaptiveLoop V (adaptiveOptions V ft cm) (nat k) 1 t0"
  using assms by (auto simp: RefineAdaptive_def split: option.splits sum.splits)

lemma RefineAdaptive_shape:
  assumes "RefineAdaptive V k ft cm t = Inr t'"
  shows "0 < length (levels t')" and "length (refinements t') + 1 = length (levels t')"
    and "levels t' ! 0 = levels t ! 0"
proof -
  from assms obtain t0 where pre: "refineAsserts t = None"
    and al: "allocate V False k t = Inr t0"
    and t': "t' = adaptiveLoop V (adaptiveOptions V ft cm) (nat k) 1 t0"
    by (rule RefineAdaptive_Inr)
  from pre have ne: "levels t \<noteq> []"
    by (simp add: refineAsserts_None)
  note l = allocate_shape(1,2) [OF al]
  have z: "levels t0 ! 0 = levels t ! 0"
    using ne by (rule allocate_shape(3) [OF al])
  note s = adaptiveLoop_shape [OF zero_less_one l, of V "adaptiveOptions V ft cm"]
  show "0 < length (levels t')" unfolding t' using s by simp
  show "length (refinements t') + 1 = length (levels t')" unfolding t' using s by simp
  show "levels t' ! 0 = levels t ! 0" unfolding t' using s z by simp
qed

text \<open>
  Claim C7, as amended. After construction, after every \<^verbatim>\<open>RefineUniform\<close> and
  \<^verbatim>\<open>RefineAdaptive\<close> call that returns, and after \<^verbatim>\<open>Unrefine\<close> on tables that hold at
  least one level, the Levels sequence has length at least 1 with element 0 the base level,
  and the Refinements sequence has length exactly the length of Levels minus 1. After
  \<^verbatim>\<open>Clear\<close> both sequences are empty.
\<close>

theorem tables_shape:
  "(length (levels (newFarRefineTables ty opts :: 'r FarRefineTables)) = 1
      \<and> refinements (newFarRefineTables ty opts :: 'r FarRefineTables) = [])
   \<and> (RefineUniform V k ft cm (t :: 'r FarRefineTables) = Inr t' \<longrightarrow>
        1 \<le> length (levels t') \<and> levels t' ! 0 = levels t ! 0
        \<and> int (length (refinements t')) = int (length (levels t')) - 1)
   \<and> (RefineAdaptive V k ft cm t = Inr t'' \<longrightarrow>
        1 \<le> length (levels t'') \<and> levels t'' ! 0 = levels t ! 0
        \<and> int (length (refinements t'')) = int (length (levels t'')) - 1)
   \<and> (levels t \<noteq> [] \<longrightarrow>
        length (levels (Unrefine t)) = 1 \<and> levels (Unrefine t) ! 0 = levels t ! 0
        \<and> refinements (Unrefine t) = [])
   \<and> (levels (Clear t) = [] \<and> refinements (Clear t) = [])"
proof (intro conjI impI)
  assume u: "RefineUniform V k ft cm t = Inr t'"
  show "1 \<le> length (levels t')" using RefineUniform_shape [OF u] by simp
  show "levels t' ! 0 = levels t ! 0" using RefineUniform_shape [OF u] by simp
  show "int (length (refinements t')) = int (length (levels t')) - 1"
    using RefineUniform_shape [OF u] by simp
next
  assume a: "RefineAdaptive V k ft cm t = Inr t''"
  show "1 \<le> length (levels t'')" using RefineAdaptive_shape [OF a] by simp
  show "levels t'' ! 0 = levels t ! 0" using RefineAdaptive_shape [OF a] by simp
  show "int (length (refinements t'')) = int (length (levels t'')) - 1"
    using RefineAdaptive_shape [OF a] by simp
next
  assume ne: "levels t \<noteq> []"
  show "length (levels (Unrefine t)) = 1"
    using ne by (simp add: Unrefine_def Let_def length_resize)
  show "levels (Unrefine t) ! 0 = levels t ! 0"
    using ne by (simp add: Unrefine_def Let_def resize_nth)
  show "refinements (Unrefine t) = []"
    by (simp add: Unrefine_def Let_def)
qed (simp_all add: newFarRefineTables_def Clear_def)

text \<open>
  Claim C7 as stated, for every public operation, fails for \<^verbatim>\<open>Clear\<close>: it leaves no level
  at all, so Levels has length 0 and Refinements does not have length \<open>0 - 1\<close>; a following
  \<^verbatim>\<open>Unrefine\<close> leaves Levels empty as well.
\<close>

theorem tables_shape_counterexample:
  "levels (Clear (tablesOf torusLevel)) = []
   \<and> \<not> 1 \<le> length (levels (Clear (tablesOf torusLevel)))
   \<and> int (length (refinements (Clear (tablesOf torusLevel))))
       \<noteq> int (length (levels (Clear (tablesOf torusLevel)))) - 1
   \<and> levels (Unrefine (Clear (tablesOf torusLevel))) = []"
  by (simp add: Clear_def Unrefine_def tablesOf_def)


lemma refine_returns:
  assumes "refineAsserts t = None" and "0 \<le> k" and "k < INT_MAX"
  shows "RefineUniform V k ft cm t = Inr (projr (RefineUniform V k ft cm t))"
    and "RefineAdaptive V k ft cm t = Inr (projr (RefineAdaptive V k ft cm t))"
  using assms
  by (simp_all add: RefineUniform_def RefineAdaptive_def Let_def allocate_def stackSizes_def)

lemma triangle_asserts: "refineAsserts (tablesOf triangleLevel) = None"
  by (simp add: refineAsserts_def tablesOf_def newFarRefineTables_def triangleLevel_def)

lemma two_in_range: "(0::int) \<le> 2" "(2::int) < INT_MAX"
  by (simp_all add: INT_MAX_def)

theorem tables_shape_witness:
  "RefineUniform recordingVtr 2 False True (tablesOf triangleLevel)
     = Inr (projr (RefineUniform recordingVtr 2 False True (tablesOf triangleLevel)))
   \<and> 1 \<le> length (levels (projr (RefineUniform recordingVtr 2 False True (tablesOf triangleLevel))))
   \<and> levels (projr (RefineUniform recordingVtr 2 False True (tablesOf triangleLevel))) ! 0 = triangleLevel
   \<and> int (length (refinements (projr (RefineUniform recordingVtr 2 False True (tablesOf triangleLevel)))))
       = int (length (levels (projr (RefineUniform recordingVtr 2 False True (tablesOf triangleLevel))))) - 1
   \<and> RefineAdaptive recordingVtr 2 False True (tablesOf triangleLevel)
     = Inr (projr (RefineAdaptive recordingVtr 2 False True (tablesOf triangleLevel)))
   \<and> 1 \<le> length (levels (projr (RefineAdaptive recordingVtr 2 False True (tablesOf triangleLevel))))
   \<and> levels (projr (RefineAdaptive recordingVtr 2 False True (tablesOf triangleLevel))) ! 0 = triangleLevel
   \<and> int (length (refinements (projr (RefineAdaptive recordingVtr 2 False True (tablesOf triangleLevel)))))
       = int (length (levels (projr (RefineAdaptive recordingVtr 2 False True (tablesOf triangleLevel))))) - 1
   \<and> levels (tablesOf triangleLevel) \<noteq> []
   \<and> length (levels (Unrefine (tablesOf triangleLevel))) = 1
   \<and> levels (Unrefine (tablesOf triangleLevel)) ! 0 = triangleLevel
   \<and> refinements (Unrefine (tablesOf triangleLevel)) = []"
proof -
  note r = refine_returns [OF triangle_asserts two_in_range, of recordingVtr False True]
  have ne: "levels (tablesOf triangleLevel) \<noteq> []"
    by (simp add: tablesOf_def)
  have z: "levels (tablesOf triangleLevel) ! 0 = triangleLevel"
    by (simp add: tablesOf_def)
  note ts = tables_shape [of _ _ recordingVtr 2 False True "tablesOf triangleLevel"
      "projr (RefineUniform recordingVtr 2 False True (tablesOf triangleLevel))"
      "projr (RefineAdaptive recordingVtr 2 False True (tablesOf triangleLevel))"]
  show ?thesis
    using r ne ts unfolding z by blast
qed

subsection \<open>Adaptive refinement\<close>

lemma adaptiveLoop_options:
  "adaptiveLoop V (ro\<lparr>opt_faceTopologyOnly := b\<rparr>) n i t = adaptiveLoop V ro n i t"
  by (simp add: adaptiveLoop_unfold [of V "ro\<lparr>opt_faceTopologyOnly := b\<rparr>" n i t]
      adaptiveLoop_unfold [of V ro n i t])

lemma adaptiveOptions_fullTopology:
  "(adaptiveOptions V ft cm)\<lparr>opt_faceTopologyOnly := False\<rparr>
     = (adaptiveOptions V ft' cm)\<lparr>opt_faceTopologyOnly := False\<rparr>"
  by (simp add: adaptiveOptions_def)

text \<open>
  Claim C9. The result of \<^verbatim>\<open>RefineAdaptive\<close> does not depend on its \<^verbatim>\<open>fullTopology\<close>
  argument: the option \<^verbatim>\<open>_faceTopologyOnly\<close> is overwritten with \<^verbatim>\<open>false\<close> in every pass
  of the loop before refining, so the calls with \<^verbatim>\<open>true\<close> and with \<^verbatim>\<open>false\<close> give the
  same tables, Levels and Refinements included.
\<close>

theorem adaptive_ignores_fullTopology:
  "RefineAdaptive V n True computeMasks t = RefineAdaptive V n False computeMasks t"
proof -
  have loop: "adaptiveLoop V (adaptiveOptions V True computeMasks) m i t0
      = adaptiveLoop V (adaptiveOptions V False computeMasks) m i t0" for m i t0
  proof -
    have "adaptiveLoop V (adaptiveOptions V True computeMasks) m i t0
        = adaptiveLoop V ((adaptiveOptions V True computeMasks)\<lparr>opt_faceTopologyOnly := False\<rparr>) m i t0"
      by (simp only: adaptiveLoop_options)
    also have "\<dots> = adaptiveLoop V ((adaptiveOptions V False computeMasks)\<lparr>opt_faceTopologyOnly := False\<rparr>)
            m i t0"
      by (simp only: adaptiveOptions_fullTopology [of V True computeMasks False])
    also have "\<dots> = adaptiveLoop V (adaptiveOptions V False computeMasks) m i t0"
      by (simp only: adaptiveLoop_options)
    finally show ?thesis .
  qed
  show ?thesis
    by (simp add: RefineAdaptive_def loop split: option.splits sum.splits)
qed




text \<open>
  At the largest \<^verbatim>\<open>int\<close> the sum \<^verbatim>\<open>subdivLevel + 1\<close> overflows and the call does not
  return tables.
\<close>

lemma RefineAdaptive_INT_MAX:
  "refineAsserts t = None \<Longrightarrow> RefineAdaptive V INT_MAX fullTopology computeMasks t = Inl IntOverflow"
  by (simp add: RefineAdaptive_def allocate_def stackSizes_def)

text \<open>The selector evaluated on the concrete levels.\<close>

lemmas selector_simps = newSelector_def setPreviousRefinement_def beginSelection_def
  endSelection_def catmarkFeatureAdaptiveSelector_def faceLoop_def vertLoop_def edgeLoop_def
  faceStep_def vertStep_def edgeStep_def quadNeedsIsolation_def boundaryEdgeSum_def
  selectVertex_def isVertexIncomplete_def selectFace_def selectVertexFaces_def
  accessFaceVerts_def accessFaceEdges_def accessEdgeVerts_def accessEdgeFaces_def
  accessVertEdges_def accessVertFaces_def edgeSharpness_def vertSharpness_def
  isSelectionEmpty_def adaptiveSelector_def







subsection \<open>Uniform refinement after Unrefine\<close>

text \<open>
  Two runs of the loop of \<^verbatim>\<open>RefineUniform\<close> that start from tables of the same shape
  with the same base level build the same levels and refinements.
\<close>

lemma uniformStep_unfold:
  "uniformStep V ft n i (ro, t) =
     (ro\<lparr>opt_faceTopologyOnly := (if ft then False else i = n)\<rparr>,
      t\<lparr>levels := (levels t)
             [i := fst (vtr_refine V (ro\<lparr>opt_faceTopologyOnly := (if ft then False else i = n)\<rparr>)
                          (levels t ! (i - 1)) {})],
        refinements := (refinements t)
             [i - 1 := snd (vtr_refine V (ro\<lparr>opt_faceTopologyOnly := (if ft then False else i = n)\<rparr>)
                              (levels t ! (i - 1)) {})]\<rparr>)"
  by (simp add: uniformStep_def Let_def split_beta)

lemma fold_uniformStep_agree:
  assumes "length (levels a) = length (levels b)"
    and "length (refinements a) = length (refinements b)"
    and "levels a ! 0 = levels b ! 0"
  shows "m < length (levels a) \<Longrightarrow> m \<le> length (refinements a) \<Longrightarrow>
     fst (fold (uniformStep V ft n) [1..<m + 1] (ro, a))
       = fst (fold (uniformStep V ft n) [1..<m + 1] (ro, b))
     \<and> (\<forall>j\<le>m. levels (snd (fold (uniformStep V ft n) [1..<m + 1] (ro, a))) ! j
                = levels (snd (fold (uniformStep V ft n) [1..<m + 1] (ro, b))) ! j)
     \<and> (\<forall>j<m. refinements (snd (fold (uniformStep V ft n) [1..<m + 1] (ro, a))) ! j
                = refinements (snd (fold (uniformStep V ft n) [1..<m + 1] (ro, b))) ! j)"
proof (induction m)
  case 0
  show ?case using assms(3) by simp
next
  case (Suc m)
  let ?A = "fold (uniformStep V ft n) [1..<m + 1] (ro, a)"
  let ?B = "fold (uniformStep V ft n) [1..<m + 1] (ro, b)"
  have pos: "\<forall>i\<in>set [1..<m + 1]. 0 < i" by auto
  have ih: "fst ?A = fst ?B"
    "\<And>j. j \<le> m \<Longrightarrow> levels (snd ?A) ! j = levels (snd ?B) ! j"
    "\<And>j. j < m \<Longrightarrow> refinements (snd ?A) ! j = refinements (snd ?B) ! j"
    using Suc.IH Suc.prems by auto
  have lenA: "length (levels (snd ?A)) = length (levels a)"
    "length (refinements (snd ?A)) = length (refinements a)"
    by (simp_all only: fold_uniformStep_shape [OF pos] snd_conv)
  have lenB: "length (levels (snd ?B)) = length (levels a)"
    "length (refinements (snd ?B)) = length (refinements a)"
    by (simp_all only: fold_uniformStep_shape [OF pos] snd_conv assms(1,2))
  have stepA: "fold (uniformStep V ft n) [1..<Suc m + 1] (ro, a)
                 = uniformStep V ft n (Suc m) (fst ?A, snd ?A)"
    by simp
  have stepB: "fold (uniformStep V ft n) [1..<Suc m + 1] (ro, b)
                 = uniformStep V ft n (Suc m) (fst ?B, snd ?B)"
    by simp
  have parent: "levels (snd ?A) ! m = levels (snd ?B) ! m"
    by (rule ih(2)) simp
  show ?case
    unfolding stepA stepB uniformStep_unfold
    using ih parent lenA lenB Suc.prems
    by (auto simp: nth_list_update)
qed

lemma RefineUniform_result:
  assumes "refineAsserts t = None" and "0 \<le> k" and "k < INT_MAX"
  shows "RefineUniform V k ft cm t =
     Inr (snd (fold (uniformStep V ft (nat k)) [1..<nat k + 1]
       ((defaultOptions V)\<lparr>opt_sparse := False, opt_computeMasks := cm\<rparr>,
        t\<lparr>isUniform := True, maxLevel := k,
          levels := resize (nat k + 1) emptyLevel (levels t),
          refinements := resize (nat k) (emptyRefinement V) (refinements t)\<rparr>)))"
  using assms by (simp add: RefineUniform_def Let_def allocate_def stackSizes_def nat_add_distrib)

text \<open>
  Claim C8. On tables on which \<^verbatim>\<open>RefineUniform(k, fullTopology, computeMasks)\<close> has
  returned, \<^verbatim>\<open>Unrefine\<close> leaves the base level alone and no refinement, and
  \<^verbatim>\<open>RefineUniform\<close> called again with the same arguments returns tables identical to those
  of the first call: the same Levels and the same Refinements, which hold the mask weights.
\<close>

theorem unrefine_refine_uniform:
  assumes "RefineUniform V k fullTopology computeMasks t = Inr t1"
  shows "levels (Unrefine t1) = [levels t ! 0] \<and> refinements (Unrefine t1) = []
       \<and> RefineUniform V k fullTopology computeMasks (Unrefine t1) = Inr t1"
proof -
  let ?n = "nat k"
  let ?ro = "(defaultOptions V)\<lparr>opt_sparse := False, opt_computeMasks := computeMasks\<rparr>"
  let ?alloc = "\<lambda>x :: 'a FarRefineTables. x\<lparr>isUniform := True, maxLevel := k,
          levels := resize (?n + 1) emptyLevel (levels x),
          refinements := resize ?n (emptyRefinement V) (refinements x)\<rparr>"
  let ?run = "\<lambda>x. fold (uniformStep V fullTopology ?n) [1..<?n + 1] (?ro, ?alloc x)"
  have pre: "refineAsserts t = None" and rng: "0 \<le> k" "k < INT_MAX"
    using assms by (auto elim!: RefineUniform_Inr simp: allocate_Inr)
  have t1: "t1 = snd (?run t)"
    using assms RefineUniform_result [OF pre rng, of V fullTopology computeMasks] by simp
  have pos: "\<forall>i\<in>set [1..<?n + 1]. 0 < i" by auto
  note shape = RefineUniform_shape [OF assms]
  have ne1: "levels t1 \<noteq> []"
    using shape(1) by auto
  have lu: "levels (Unrefine t1) = [levels t ! 0]"
    using ne1 shape(3) by (cases "levels t1") (simp_all add: Unrefine_def Let_def resize_def)
  have ru: "refinements (Unrefine t1) = []"
    by (simp add: Unrefine_def Let_def)
  have scalarsA: "subdivType (snd (?run t)) = subdivType t"
    "subdivOptions (snd (?run t)) = subdivOptions t"
    "isUniform (snd (?run t)) = True" "maxLevel (snd (?run t)) = k"
    unfolding fold_uniformStep_shape [OF pos] by simp_all
  have scalarsU: "subdivType (Unrefine t1) = subdivType t" "subdivOptions (Unrefine t1) = subdivOptions t"
    using scalarsA(1,2) by (simp_all add: Unrefine_def Let_def t1)
  have preU: "refineAsserts (Unrefine t1) = None"
    using pre lu scalarsU by (simp add: refineAsserts_None)
  let ?A = "?run t" and ?B = "?run (Unrefine t1)"
  have la: "length (levels (?alloc t)) = ?n + 1" "length (refinements (?alloc t)) = ?n"
    and lb: "length (levels (?alloc (Unrefine t1))) = ?n + 1"
      "length (refinements (?alloc (Unrefine t1))) = ?n"
    by (simp_all add: length_resize)
  have z: "levels (?alloc t) ! 0 = levels (?alloc (Unrefine t1)) ! 0"
    using pre lu by (simp add: refineAsserts_None resize_nth)
  have agree: "(\<forall>j\<le>?n. levels (snd ?A) ! j = levels (snd ?B) ! j)
     \<and> (\<forall>j<?n. refinements (snd ?A) ! j = refinements (snd ?B) ! j)"
    using fold_uniformStep_agree [of "?alloc t" "?alloc (Unrefine t1)" ?n V fullTopology ?n ?ro] la lb z
    by simp
  have lenA: "length (levels (snd ?A)) = ?n + 1" "length (refinements (snd ?A)) = ?n"
    unfolding fold_uniformStep_shape [OF pos] by (simp_all add: length_resize)
  have lenB: "length (levels (snd ?B)) = ?n + 1" "length (refinements (snd ?B)) = ?n"
    unfolding fold_uniformStep_shape [OF pos] by (simp_all add: length_resize)
  define A where "A = snd ?A"
  define B where "B = snd ?B"
  note agreeAB = agree [folded A_def B_def]
  note lenAB = lenA [folded A_def] lenB [folded B_def]
  have levels_eq: "levels B = levels A"
  proof (rule nth_equalityI)
    show "length (levels B) = length (levels A)"
      by (simp only: lenAB)
  next
    fix j assume "j < length (levels B)"
    then have "j \<le> ?n" using lenAB by arith
    with agreeAB show "levels B ! j = levels A ! j" by metis
  qed
  have refinements_eq: "refinements B = refinements A"
  proof (rule nth_equalityI)
    show "length (refinements B) = length (refinements A)"
      by (simp only: lenAB)
  next
    fix j assume "j < length (refinements B)"
    then have "j < ?n" using lenAB by arith
    with agreeAB show "refinements B ! j = refinements A ! j" by metis
  qed
  have scalarsB: "subdivType (snd ?B) = subdivType t" "subdivOptions (snd ?B) = subdivOptions t"
    "isUniform (snd ?B) = True" "maxLevel (snd ?B) = k"
    unfolding fold_uniformStep_shape [OF pos] using scalarsU by simp_all
  have "B = A"
    by (rule FarRefineTables.equality)
       (simp_all add: levels_eq refinements_eq scalarsA [folded A_def] scalarsB [folded B_def])
  then have "snd ?B = snd ?A"
    by (simp only: A_def B_def)
  then have "snd ?B = t1"
    by (simp only: t1)
  then have "RefineUniform V k fullTopology computeMasks (Unrefine t1) = Inr t1"
    by (simp only: RefineUniform_result [OF preU rng, of V fullTopology computeMasks])
  with lu ru show ?thesis by simp
qed


theorem unrefine_refine_uniform_witness:
  "RefineUniform recordingVtr 2 False True (tablesOf triangleLevel)
     = Inr (projr (RefineUniform recordingVtr 2 False True (tablesOf triangleLevel)))
   \<and> levels (Unrefine (projr (RefineUniform recordingVtr 2 False True (tablesOf triangleLevel))))
       = [triangleLevel]
   \<and> refinements (Unrefine (projr (RefineUniform recordingVtr 2 False True (tablesOf triangleLevel))))
       = []
   \<and> RefineUniform recordingVtr 2 False True
         (Unrefine (projr (RefineUniform recordingVtr 2 False True (tablesOf triangleLevel))))
       = Inr (projr (RefineUniform recordingVtr 2 False True (tablesOf triangleLevel)))"
proof -
  note r = refine_returns(1) [OF triangle_asserts two_in_range, of recordingVtr False True]
  have z: "levels (tablesOf triangleLevel) ! 0 = triangleLevel"
    by (simp add: tablesOf_def)
  show ?thesis
    using r unrefine_refine_uniform [OF r] unfolding z by blast
qed

subsection \<open>Feature-adaptive selection\<close>

lemma sel_faces_selectVertexFaces:
  "sel_faces (fold selectFace fs sel) = sel_faces sel \<union> set fs"
  by (induction fs arbitrary: sel) (auto simp: selectFace_def)









text \<open>
  The passes keep the level and the previous refinement of the selector, so that the test
  for an incomplete vertex gives the same answer throughout.
\<close>

lemma fold_selectFace_fields:
  "sel_parent (fold selectFace fs sel) = sel_parent sel"
  "sel_previous (fold selectFace fs sel) = sel_previous sel"
  by (induction fs arbitrary: sel) (simp_all add: selectFace_def)

lemma isVertexIncomplete_previous:
  "sel_previous s = sel_previous s' \<Longrightarrow> isVertexIncomplete V s v = isVertexIncomplete V s' v"
  by (simp add: isVertexIncomplete_def)

lemma faceStep_fields:
  "sel_parent (faceStep level face sel) = sel_parent sel"
  "sel_previous (faceStep level face sel) = sel_previous sel"
  by (simp_all add: faceStep_def selectFace_def Let_def)

lemma faceLoop_fields:
  "sel_parent (faceLoop level sel) = sel_parent sel"
  "sel_previous (faceLoop level sel) = sel_previous sel"
proof -
  have "sel_parent (fold (faceStep level) xs sel) = sel_parent sel
      \<and> sel_previous (fold (faceStep level) xs sel) = sel_previous sel" for xs
    by (induction xs arbitrary: sel) (simp_all add: faceStep_fields)
  then show "sel_parent (faceLoop level sel) = sel_parent sel"
    and "sel_previous (faceLoop level sel) = sel_previous sel"
    by (simp_all add: faceLoop_def)
qed

lemma vertStep_fields:
  "sel_parent (vertStep V level vert sel) = sel_parent sel"
  "sel_previous (vertStep V level vert sel) = sel_previous sel"
  by (simp_all add: vertStep_def selectVertexFaces_def fold_selectFace_fields)

lemma vertStep_faces:
  assumes "sel_parent sel = level"
  shows "sel_faces (vertStep V level vert sel) =
           sel_faces sel \<union> (if \<not> isVertexIncomplete V sel vert \<and> selectVertex V level vert
                              then set (accessVertFaces level vert) else {})"
  using assms by (simp add: vertStep_def selectVertexFaces_def sel_faces_selectVertexFaces)

lemma fold_vertStep:
  assumes "sel_parent sel = level"
  shows "sel_parent (fold (vertStep V level) [0..<n] sel) = level
       \<and> sel_previous (fold (vertStep V level) [0..<n] sel) = sel_previous sel
       \<and> sel_faces (fold (vertStep V level) [0..<n] sel) =
           sel_faces sel \<union> {f. \<exists>v<n. \<not> isVertexIncomplete V sel v \<and> selectVertex V level v
                                    \<and> f \<in> set (accessVertFaces level v)}"
proof (induction n)
  case 0
  show ?case using assms by simp
next
  case (Suc n)
  let ?s = "fold (vertStep V level) [0..<n] sel"
  have step: "fold (vertStep V level) [0..<Suc n] sel = vertStep V level n ?s"
    by simp
  have inc: "isVertexIncomplete V ?s n = isVertexIncomplete V sel n"
    using Suc.IH by (intro isVertexIncomplete_previous) simp
  have faces: "sel_faces (vertStep V level n ?s) =
      sel_faces ?s \<union> (if \<not> isVertexIncomplete V sel n \<and> selectVertex V level n
                         then set (accessVertFaces level n) else {})"
    using Suc.IH by (simp add: vertStep_faces inc)
  show ?case
    unfolding step faces using Suc.IH
    by (auto simp: vertStep_fields less_Suc_eq)
qed

lemma edgeStep_fields:
  "sel_parent (edgeStep V level edge sel) = sel_parent sel"
  "sel_previous (edgeStep V level edge sel) = sel_previous sel"
  by (simp_all add: edgeStep_def selectVertexFaces_def fold_selectFace_fields Let_def)

lemma isVertexIncomplete_fold_selectFace:
  "isVertexIncomplete V (fold selectFace fs sel) v = isVertexIncomplete V sel v"
  by (intro isVertexIncomplete_previous) (rule fold_selectFace_fields)

lemma edgeStep_faces:
  assumes "sel_parent sel = level"
  shows "sel_faces (edgeStep V level edge sel) =
           sel_faces sel \<union>
             {f. edgeSharpness level edge > 0 \<and> 2 \<le> length (accessEdgeFaces level edge)
                 \<and> (\<exists>k<2. \<not> isVertexIncomplete V sel (accessEdgeVerts level edge ! k)
                           \<and> f \<in> set (accessVertFaces level (accessEdgeVerts level edge ! k)))}"
proof -
  have two: "(\<exists>k<2. P k) \<longleftrightarrow> P 0 \<or> P (Suc 0)" for P
    by (auto simp: less_2_cases_iff)
  show ?thesis
    using assms
    by (auto simp: edgeStep_def Let_def selectVertexFaces_def sel_faces_selectVertexFaces
        fold_selectFace_fields isVertexIncomplete_fold_selectFace two)
qed

lemma fold_edgeStep:
  assumes "sel_parent sel = level"
  shows "sel_parent (fold (edgeStep V level) [0..<n] sel) = level
       \<and> sel_previous (fold (edgeStep V level) [0..<n] sel) = sel_previous sel
       \<and> sel_faces (fold (edgeStep V level) [0..<n] sel) =
           sel_faces sel \<union>
             {f. \<exists>e<n. edgeSharpness level e > 0 \<and> 2 \<le> length (accessEdgeFaces level e)
                 \<and> (\<exists>k<2. \<not> isVertexIncomplete V sel (accessEdgeVerts level e ! k)
                           \<and> f \<in> set (accessVertFaces level (accessEdgeVerts level e ! k)))}"
proof (induction n)
  case 0
  show ?case using assms by simp
next
  case (Suc n)
  let ?s = "fold (edgeStep V level) [0..<n] sel"
  have step: "fold (edgeStep V level) [0..<Suc n] sel = edgeStep V level n ?s"
    by simp
  have inc: "isVertexIncomplete V ?s v = isVertexIncomplete V sel v" for v
    using Suc.IH by (intro isVertexIncomplete_previous) simp
  have parent: "sel_parent ?s = level"
    using Suc.IH by simp
  show ?case
    unfolding step edgeStep_faces [OF parent] inc using Suc.IH
    by (auto simp: edgeStep_fields less_Suc_eq)
qed

text \<open>
  The selection when the selector has finished: the faces marked by the face pass, the faces
  around every visited vertex whose rule holds, and the faces around the complete end
  vertices of every sharp edge with at least two incident faces.
\<close>

lemma selector_faces:
  assumes "sel_parent sel = level"
  shows "sel_faces (catmarkFeatureAdaptiveSelector V sel) =
           sel_faces (faceLoop level sel)
           \<union> {f. \<exists>v<vertCount level. \<not> isVertexIncomplete V sel v \<and> selectVertex V level v
                     \<and> f \<in> set (accessVertFaces level v)}
           \<union> {f. \<exists>e<edgeCount level. edgeSharpness level e > 0
                     \<and> 2 \<le> length (accessEdgeFaces level e)
                     \<and> (\<exists>k<2. \<not> isVertexIncomplete V sel (accessEdgeVerts level e ! k)
                               \<and> f \<in> set (accessVertFaces level (accessEdgeVerts level e ! k)))}"
proof -
  let ?f = "faceLoop level sel"
  let ?v = "vertLoop V level ?f"
  have pf: "sel_parent ?f = level" and qf: "sel_previous ?f = sel_previous sel"
    using assms by (simp_all add: faceLoop_fields)
  note v = fold_vertStep [OF pf, of V "vertCount level", folded vertLoop_def]
  have pv: "sel_parent ?v = level" and qv: "sel_previous ?v = sel_previous sel"
    using v qf by simp_all
  note e = fold_edgeStep [OF pv, of V "edgeCount level", folded edgeLoop_def]
  have incf: "isVertexIncomplete V ?f x = isVertexIncomplete V sel x" for x
    by (intro isVertexIncomplete_previous) (rule qf)
  have incv: "isVertexIncomplete V ?v x = isVertexIncomplete V sel x" for x
    by (intro isVertexIncomplete_previous) (rule qv)
  have "catmarkFeatureAdaptiveSelector V sel = edgeLoop V level ?v"
    using assms by (simp add: catmarkFeatureAdaptiveSelector_def Let_def)
  then show ?thesis
    using e v by (simp add: incf incv)
qed


text \<open>
  For a quad with exactly two boundary edges whose edges 0 and 2 have one or two incident
  faces each, the comparison of the two sizes holds exactly when the two boundary edges are
  opposite.
\<close>

lemma opposite_boundaries_detected:
  assumes "accessFaceEdges level face = [e0, e1, e2, e3]"
    and "length (accessEdgeFaces level e0) \<in> {1, 2}"
    and "length (accessEdgeFaces level e2) \<in> {1, 2}"
    and "boundaryEdgeCount level face = 2"
  shows "length (accessEdgeFaces level e0) = length (accessEdgeFaces level e2) \<longleftrightarrow>
           (length (accessEdgeFaces level e0) = 1 \<and> length (accessEdgeFaces level e2) = 1
            \<and> length (accessEdgeFaces level e1) \<noteq> 1 \<and> length (accessEdgeFaces level e3) \<noteq> 1)
         \<or> (length (accessEdgeFaces level e0) \<noteq> 1 \<and> length (accessEdgeFaces level e2) \<noteq> 1
            \<and> length (accessEdgeFaces level e1) = 1 \<and> length (accessEdgeFaces level e3) = 1)"
  using assms by (auto simp: boundaryEdgeCount_def split: if_splits)

lemmas level_simps = accessFaceVerts_def accessFaceEdges_def accessEdgeVerts_def
  accessEdgeFaces_def accessVertEdges_def accessVertFaces_def edgeSharpness_def vertSharpness_def


lemma selected_vertex_faces:
  assumes "sel_parent sel = level" and "v < vertCount level"
    and "\<not> isVertexIncomplete V sel v" and "selectVertex V level v"
    and "f \<in> set (accessVertFaces level v)"
  shows "f \<in> sel_faces (catmarkFeatureAdaptiveSelector V sel)"
  unfolding selector_faces [OF assms(1)] using assms(2-5) by blast

lemma fresh_fields:
  "sel_parent (freshSelector level) = level" "sel_faces (freshSelector level) = {}"
  "\<not> isVertexIncomplete recordingVtr (freshSelector level) v"
  by (simp_all add: freshSelector_def selector_simps)


lemma selectVertex_sharp:
  assumes "f \<in> set (accessVertFaces level v)"
  shows "selectVertex V level v \<longleftrightarrow>
           (if vertSharpness level v > 0
            then length (accessVertFaces level v) > 1 \<or> vertSharpness level v < crease_INFINITE V
            else selectVertex V level v)"
proof -
  from assms have "length (accessVertFaces level v) \<noteq> 1 \<longleftrightarrow> length (accessVertFaces level v) > 1"
    by (cases "accessVertFaces level v") auto
  then show ?thesis
    by (simp add: selectVertex_def Let_def)
qed

text \<open>
  Claim C6, as amended. For every vertex that is not flagged incomplete and whose sharpness
  is positive, the vertex pass of the selector selects the incident faces of the vertex if
  the vertex has more than one incident face or its sharpness is below
  \<^verbatim>\<open>SdcCrease::INFINITE\<close>, and these faces are selected when the selector has finished; an
  infinitely sharp vertex with exactly one incident face selects nothing itself. After the
  vertex pass a face is selected if and only if it was selected before or is a face around
  a visited vertex whose own rule holds, so that the face of such a corner is selected only
  through another rule.
\<close>

theorem sharp_vertex_selection:
  assumes "sel_parent sel = level"
  shows "(f \<in> sel_faces (vertLoop V level sel) \<longleftrightarrow>
            f \<in> sel_faces sel
            \<or> (\<exists>v<vertCount level. \<not> isVertexIncomplete V sel v
                  \<and> f \<in> set (accessVertFaces level v)
                  \<and> (if vertSharpness level v > 0
                      then length (accessVertFaces level v) > 1
                           \<or> vertSharpness level v < crease_INFINITE V
                      else selectVertex V level v)))
       \<and> (vert < vertCount level \<and> \<not> isVertexIncomplete V sel vert
            \<and> vertSharpness level vert > 0
            \<and> (length (accessVertFaces level vert) > 1 \<or> vertSharpness level vert < crease_INFINITE V)
            \<longrightarrow> set (accessVertFaces level vert) \<subseteq> sel_faces (vertLoop V level sel)
                \<and> set (accessVertFaces level vert) \<subseteq> sel_faces (catmarkFeatureAdaptiveSelector V sel))
       \<and> (\<not> isVertexIncomplete V sel vert \<and> vertSharpness level vert > 0
            \<longrightarrow> vertStep V level vert sel =
                  (if length (accessVertFaces level vert) > 1
                      \<or> vertSharpness level vert < crease_INFINITE V
                   then selectVertexFaces vert sel else sel))"
proof (intro conjI impI)
  note loop = fold_vertStep [OF assms, of V "vertCount level", folded vertLoop_def]
  define R where "R v = (if vertSharpness level v > 0
                      then length (accessVertFaces level v) > 1
                           \<or> vertSharpness level v < crease_INFINITE V
                      else selectVertex V level v)" for v
  have r: "selectVertex V level v \<longleftrightarrow> R v" if "f \<in> set (accessVertFaces level v)" for v
    unfolding R_def by (rule selectVertex_sharp [OF that])
  have "f \<in> sel_faces (vertLoop V level sel) \<longleftrightarrow>
          f \<in> sel_faces sel
          \<or> (\<exists>v<vertCount level. \<not> isVertexIncomplete V sel v \<and> selectVertex V level v
                \<and> f \<in> set (accessVertFaces level v))"
    using loop by simp
  also have "\<dots> \<longleftrightarrow> f \<in> sel_faces sel
          \<or> (\<exists>v<vertCount level. \<not> isVertexIncomplete V sel v
                \<and> f \<in> set (accessVertFaces level v) \<and> R v)"
    using r by blast
  finally show "f \<in> sel_faces (vertLoop V level sel) \<longleftrightarrow>
            f \<in> sel_faces sel
            \<or> (\<exists>v<vertCount level. \<not> isVertexIncomplete V sel v
                  \<and> f \<in> set (accessVertFaces level v)
                  \<and> (if vertSharpness level v > 0
                      then length (accessVertFaces level v) > 1
                           \<or> vertSharpness level v < crease_INFINITE V
                      else selectVertex V level v))"
    unfolding R_def .
  {
    assume a: "vert < vertCount level \<and> \<not> isVertexIncomplete V sel vert
            \<and> vertSharpness level vert > 0
            \<and> (length (accessVertFaces level vert) > 1 \<or> vertSharpness level vert < crease_INFINITE V)"
    then have sv: "selectVertex V level vert"
      by (auto simp: selectVertex_def Let_def)
    show "set (accessVertFaces level vert) \<subseteq> sel_faces (vertLoop V level sel)"
      using a sv loop by auto
    show "set (accessVertFaces level vert) \<subseteq> sel_faces (catmarkFeatureAdaptiveSelector V sel)"
      using a sv selected_vertex_faces [OF assms, of vert V] by auto
  }
  {
    assume b: "\<not> isVertexIncomplete V sel vert \<and> vertSharpness level vert > 0"
    have none: "selectVertexFaces vert sel = sel" if "accessVertFaces level vert = []"
      using that assms by (simp add: selectVertexFaces_def)
    show "vertStep V level vert sel =
                  (if length (accessVertFaces level vert) > 1
                      \<or> vertSharpness level vert < crease_INFINITE V
                   then selectVertexFaces vert sel else sel)"
    proof (cases "accessVertFaces level vert = []")
      case True
      then show ?thesis
        using b none by (simp add: vertStep_def selectVertex_def Let_def)
    next
      case False
      then have "length (accessVertFaces level vert) \<noteq> 1 \<longleftrightarrow> length (accessVertFaces level vert) > 1"
        by (cases "accessVertFaces level vert") auto
      then show ?thesis
        using b by (simp add: vertStep_def selectVertex_def Let_def)
    qed
  }
qed

lemma sharpQuad_vertices:
  assumes "v < 4"
  shows "vertSharpness sharpQuadLevel v = 10" and "accessVertFaces sharpQuadLevel v = [0]"
  using assms by (auto simp: sharpQuadLevel_def level_simps numeral_eq_Suc less_Suc_eq)

theorem sharp_vertex_selection_witness:
  "sel_parent (freshSelector stripLevel) = stripLevel
   \<and> 1 < vertCount stripLevel
   \<and> \<not> isVertexIncomplete recordingVtr (freshSelector stripLevel) 1
   \<and> vertSharpness stripLevel 1 > 0
   \<and> length (accessVertFaces stripLevel 1) > 1
   \<and> accessVertFaces stripLevel 1 = [0, 1]
   \<and> {0, 1} \<subseteq> sel_faces (vertLoop recordingVtr stripLevel (freshSelector stripLevel))
   \<and> {0, 1} \<subseteq> sel_faces (catmarkFeatureAdaptiveSelector recordingVtr (freshSelector stripLevel))
   \<and> \<not> isVertexIncomplete recordingVtr (freshSelector stripLevel) 0
   \<and> vertSharpness stripLevel 0 > 0
   \<and> length (accessVertFaces stripLevel 0) = 1
   \<and> vertSharpness stripLevel 0 \<ge> crease_INFINITE recordingVtr
   \<and> vertStep recordingVtr stripLevel 0 (freshSelector stripLevel) = freshSelector stripLevel
   \<and> sel_parent (freshSelector sharpQuadLevel) = sharpQuadLevel
   \<and> 0 \<notin> sel_faces (vertLoop recordingVtr sharpQuadLevel (freshSelector sharpQuadLevel))"
proof -
  note p = fresh_fields(1) [of stripLevel]
  note i = fresh_fields(3) [of stripLevel]
  have v0: "vertSharpness stripLevel 0 > 0" "length (accessVertFaces stripLevel 0) = 1"
    "vertSharpness stripLevel 0 \<ge> crease_INFINITE recordingVtr"
    by (simp_all add: stripLevel_def recordingVtr_def level_simps)
  have v1: "1 < vertCount stripLevel" "vertSharpness stripLevel 1 > 0"
    "length (accessVertFaces stripLevel 1) > 1" "accessVertFaces stripLevel 1 = [0, 1]"
    by (simp_all add: stripLevel_def recordingVtr_def level_simps)
  note t = sharp_vertex_selection [OF p, of _ recordingVtr]
  have s1: "set (accessVertFaces stripLevel 1)
              \<subseteq> sel_faces (vertLoop recordingVtr stripLevel (freshSelector stripLevel))"
    "set (accessVertFaces stripLevel 1)
       \<subseteq> sel_faces (catmarkFeatureAdaptiveSelector recordingVtr (freshSelector stripLevel))"
    using t [of 0 1, THEN conjunct2, THEN conjunct1] v1 i by blast+
  have s0: "vertStep recordingVtr stripLevel 0 (freshSelector stripLevel) = freshSelector stripLevel"
    using t [of 0 0, THEN conjunct2, THEN conjunct2] v0 i by simp
  have q: "vertCount sharpQuadLevel = 4"
    by (simp add: sharpQuadLevel_def)
  have "crease_INFINITE recordingVtr = 10"
    by (simp add: recordingVtr_def)
  then have s2: "0 \<notin> sel_faces (vertLoop recordingVtr sharpQuadLevel (freshSelector sharpQuadLevel))"
    using sharp_vertex_selection [OF fresh_fields(1) [of sharpQuadLevel], of 0 recordingVtr,
        THEN conjunct1]
    by (auto simp: q fresh_fields sharpQuad_vertices)
  show ?thesis
    using p i v0 v1 s0 s1 s2 fresh_fields(1) [of sharpQuadLevel] by simp
qed

text \<open>
  Claim C6 as stated, for the selection as a whole, fails in its "only if" half: vertex 0 of
  the strip is infinitely sharp with exactly one incident face, face 0, and face 0 is
  selected all the same, by the vertex pass through its vertex 4 of finite sharpness.
\<close>

theorem sharp_vertex_selection_counterexample:
  "\<not> isVertexIncomplete recordingVtr (freshSelector stripLevel) 0
   \<and> vertSharpness stripLevel 0 > 0
   \<and> accessVertFaces stripLevel 0 = [0]
   \<and> \<not> length (accessVertFaces stripLevel 0) > 1
   \<and> \<not> vertSharpness stripLevel 0 < crease_INFINITE recordingVtr
   \<and> 0 \<in> sel_faces (vertLoop recordingVtr stripLevel (freshSelector stripLevel))
   \<and> 0 \<in> sel_faces (catmarkFeatureAdaptiveSelector recordingVtr (freshSelector stripLevel))"
proof -
  have v4: "4 < vertCount stripLevel" "selectVertex recordingVtr stripLevel 4"
    "(0::nat) \<in> set (accessVertFaces stripLevel 4)"
    by (simp_all add: stripLevel_def recordingVtr_def selectVertex_def level_simps)
  have a: "0 \<in> sel_faces (catmarkFeatureAdaptiveSelector recordingVtr (freshSelector stripLevel))"
    by (rule selected_vertex_faces [OF fresh_fields(1) v4(1) fresh_fields(3) v4(2,3)])
  have b: "0 \<in> sel_faces (vertLoop recordingVtr stripLevel (freshSelector stripLevel))"
    using fold_vertStep [OF fresh_fields(1) [of stripLevel], of recordingVtr "vertCount stripLevel",
        folded vertLoop_def] v4 fresh_fields(3) [of stripLevel 4]
    by auto
  have c: "vertSharpness stripLevel 0 > 0" "accessVertFaces stripLevel 0 = [0]"
    "\<not> length (accessVertFaces stripLevel 0) > 1"
    "\<not> vertSharpness stripLevel 0 < crease_INFINITE recordingVtr"
    by (simp_all add: stripLevel_def recordingVtr_def level_simps)
  show ?thesis
    using a b c fresh_fields(3) [of stripLevel 0] by blast
qed

end
